theory Spec2Isabelle
  imports Complex_Main "HOL-Library.Signed_Division"
begin

section \<open>The homeostatic decision core of model.c\<close>

text \<open>
  The C program keeps its physiological variables, the two sensor frames and the two
  speed tables in globals. Here they are the fields of one record that every function
  takes and returns. A C \<^verbatim>\<open>float\<close> is read as a real number: rounding is left out,
  and the one place where the program divides a float by zero is modelled with its
  IEEE result (type \<open>fval\<close> below). A C \<^verbatim>\<open>int\<close> is an unbounded integer; \<^verbatim>\<open>/\<close> on two
  ints is the truncating \<open>sdiv\<close>. A function whose C result is the constant 0 and is
  never read returns only the new state here; \<^verbatim>\<open>circ_damage\<close>, \<^verbatim>\<open>speed_damage\<close> and
  \<^verbatim>\<open>check_if_damage\<close>, whose results are read, return it with the state.
\<close>

subsection \<open>Constants\<close>

definition SPEED :: int where "SPEED = 200"
definition TIME :: int where "TIME = 100000"
definition MAX_DIST :: int where "MAX_DIST = 500"
definition MIN_DIST :: int where "MIN_DIST = 80"

text \<open>\<^verbatim>\<open>M_PI\<close> comes from math.h, as the decimal literal written there.\<close>

definition M_PI :: real where "M_PI = 3.14159265358979323846"

subsection \<open>Winner takes all\<close>

text \<open>The result is the C return value: 1 energy, 2 tegument, 3 integrity, -1 none.\<close>

definition winner_takes_all :: "real \<Rightarrow> real \<Rightarrow> real \<Rightarrow> int" where
  "winner_takes_all m1 m2 m3 =
     (if m1 > m2 \<and> m1 > m3 then 1
      else if m2 > m1 \<and> m2 > m3 then 2
      else if m3 > m1 \<and> m3 > m2 then 3
      else - 1)"

subsection \<open>Float quotients\<close>

text \<open>
  The value of a C float division where the divisor can be zero: a finite quotient, an
  infinity or not-a-number, and the comparison \<^verbatim>\<open>>\<close> of such a value with a finite one.
\<close>

datatype fval = Fin real | PInf | NInf | NaN

definition fdiv :: "real \<Rightarrow> real \<Rightarrow> fval" where
  "fdiv a b = (if b \<noteq> 0 then Fin (a / b) else if a > 0 then PInf else if a < 0 then NInf else NaN)"

fun fgt :: "fval \<Rightarrow> real \<Rightarrow> bool" where
  "fgt (Fin x) c = (x > c)"
| "fgt PInf c = True"
| "fgt NInf c = False"
| "fgt NaN c = False"

text \<open>
  \<^verbatim>\<open>abs\<close> is the integer function of stdlib.h; a float argument is first converted to
  \<^verbatim>\<open>int\<close>, which truncates towards zero.
\<close>

definition c_trunc :: "real \<Rightarrow> int" where
  "c_trunc x = (if x \<ge> 0 then \<lfloor>x\<rfloor> else \<lceil>x\<rceil>)"

subsection \<open>The robot and the rest of the process\<close>

text \<open>
  What the program sends to the robot, in the order it is sent (printing and sleeping are
  left out): the calls of the Khepera library and the two LED animations.
\<close>

datatype event =
  SetMode_RegSpeed | SetMode_RegIdle | SetSpeed real real | LedsOff
  | DeathAnimation | DamageAnimation

text \<open>
  What the program reads from outside its own variables: the eight proximity values that
  the \<open>n\<close>-th call of \<^verbatim>\<open>kh4_proximity_ir\<close> delivers (already decoded from the buffer), the
  indeterminate content of the uninitialised local \<^verbatim>\<open>mean\<close> at the \<open>n\<close>-th call of one of
  the two mean functions, and the value of \<^verbatim>\<open>_secure_led_animation\<close>, written only by the
  animation threads, at the \<open>n\<close>-th read in \<^verbatim>\<open>induce_damage\<close>.
\<close>

record world =
  proximity_ir :: "nat \<Rightarrow> nat \<Rightarrow> int"
  indeterminate :: "nat \<Rightarrow> real"
  secure_led_animation :: "nat \<Rightarrow> int"

record state =
  left_speed :: real
  right_speed :: real
  var_energy :: real
  var_tegument :: real
  var_integrity :: real
  def_energy :: real
  def_tegument :: real
  def_integrity :: real
  cue_energy :: real
  cue_tegument :: real
  cue_integrity :: real
  mot_energy :: real
  mot_tegument :: real
  mot_integrity :: real
  prev_sensors :: "int list"
  sensors :: "int list"
  speed :: "real list"
  circ_speed :: "real list"
  ir_calls :: nat
  mean_calls :: nat
  flag_reads :: nat
  events :: "event list"

text \<open>The globals as their initialisers leave them; arrays without one are zero.\<close>

definition init_state :: state where
  "init_state =
     \<lparr>left_speed = 0, right_speed = 0,
      var_energy = 1.0, var_tegument = 1.0, var_integrity = 1.0,
      def_energy = 1.0, def_tegument = 1.0, def_integrity = 1.0,
      cue_energy = 1.0, cue_tegument = 1.0, cue_integrity = 1.0,
      mot_energy = 1.0, mot_tegument = 1.0, mot_integrity = 1.0,
      prev_sensors = replicate 8 0, sensors = replicate 8 0,
      speed = replicate 8 0, circ_speed = replicate 7 0,
      ir_calls = 0, mean_calls = 0, flag_reads = 0, events = []\<rparr>"

subsection \<open>Motors\<close>

definition stop_moving :: "state \<Rightarrow> state" where
  "stop_moving s =
     s\<lparr>events := events s @ [SetMode_RegSpeed, SetSpeed 0 0, LedsOff, SetMode_RegIdle]\<rparr>"

definition move :: "real \<Rightarrow> real \<Rightarrow> state \<Rightarrow> state" where
  "move motor_left motor_right s =
     s\<lparr>events := events s @
        [SetMode_RegSpeed, SetSpeed (motor_left * real_of_int SPEED) (motor_right * real_of_int SPEED)]\<rparr>"

definition death_animation :: "state \<Rightarrow> state" where
  "death_animation s = s\<lparr>events := events s @ [DeathAnimation]\<rparr>"

subsection \<open>Sensors\<close>

text \<open>The body of the loop of \<^verbatim>\<open>get_sensors\<close>: what is stored for one decoded value.\<close>

definition limit_sensval :: "int \<Rightarrow> int" where
  "limit_sensval sensval =
     (if sensval > MAX_DIST then MAX_DIST
      else if sensval < MIN_DIST then 0
      else drop_bit 1 (sensval - MIN_DIST))"

definition get_sensors :: "world \<Rightarrow> state \<Rightarrow> state" where
  "get_sensors w s =
     s\<lparr>sensors := fold (\<lambda>i xs. xs[i := limit_sensval (proximity_ir w (ir_calls s) i)]) [0..<8] (sensors s),
       ir_calls := ir_calls s + 1\<rparr>"

definition get_sensors_history :: "state \<Rightarrow> state" where
  "get_sensors_history s =
     s\<lparr>prev_sensors := fold (\<lambda>i ps. ps[i := sensors s ! i]) [0..<8] (prev_sensors s)\<rparr>"

subsection \<open>Deficits, cues, motivations\<close>

definition compute_deficit :: "state \<Rightarrow> state" where
  "compute_deficit s =
     s\<lparr>def_energy := 1.0 - var_energy s,
       def_tegument := 1.0 - var_tegument s,
       def_integrity := 1.0 - var_integrity s\<rparr>"

definition compute_motivations :: "state \<Rightarrow> state" where
  "compute_motivations s =
     s\<lparr>mot_energy := def_energy s + (def_energy s * cue_energy s),
       mot_tegument := def_tegument s + (def_tegument s * cue_tegument s),
       mot_integrity := def_integrity s + (def_integrity s * cue_integrity s)\<rparr>"

text \<open>
  The first argument of the two mean functions is the value the uninitialised \<^verbatim>\<open>mean\<close>
  starts with. The integer version is only called with \<open>min = MIN_DIST\<close> and
  \<open>max = MAX_DIST\<close>, so its divisor is 420; the float version is called with a zero
  divisor and returns an \<open>fval\<close>.
\<close>

definition get_mean_normalized :: "real \<Rightarrow> int list \<Rightarrow> nat \<Rightarrow> int \<Rightarrow> int \<Rightarrow> real" where
  "get_mean_normalized mean0 table size' min' max' =
     (let mean = fold (\<lambda>i m. m + real_of_int (table ! i)) [0..<size'] mean0;
          mean = mean / real size'
      in (mean - real_of_int min') / real_of_int (max' - min'))"

definition get_mean_normalized_f :: "real \<Rightarrow> real list \<Rightarrow> nat \<Rightarrow> real \<Rightarrow> real \<Rightarrow> fval" where
  "get_mean_normalized_f mean0 table size' min' max' =
     (let mean = fold (\<lambda>i m. m + table ! i) [0..<size'] mean0;
          mean = mean / real size'
      in fdiv (mean - min') (max' - min'))"

definition compute_cues :: "world \<Rightarrow> state \<Rightarrow> state" where
  "compute_cues w s =
     s\<lparr>cue_energy := 0.06,
       cue_tegument := 0.055,
       cue_integrity := get_mean_normalized (indeterminate w (mean_calls s)) (sensors s) 8 MIN_DIST MAX_DIST,
       mean_calls := mean_calls s + 1\<rparr>"

definition decrease_physoligical_variables :: "state \<Rightarrow> state" where
  "decrease_physoligical_variables s =
     s\<lparr>var_energy := var_energy s - 0.004, var_tegument := var_tegument s - 0.0015\<rparr>"

text \<open>
  \<^verbatim>\<open>update_vars\<close> and \<^verbatim>\<open>induce_damage\<close> call each other in the C file, but
  \<^verbatim>\<open>induce_damage\<close> always passes 0, which skips the branch that can reach
  \<^verbatim>\<open>induce_damage\<close> again. The three statements after that branch are \<open>recompute_vars\<close>;
  \<open>update_vars\<close> itself follows the damage functions.
\<close>

definition recompute_vars :: "world \<Rightarrow> state \<Rightarrow> state" where
  "recompute_vars w s = compute_motivations (compute_cues w (compute_deficit s))"

subsection \<open>Damage\<close>

definition induce_damage :: "world \<Rightarrow> real \<Rightarrow> state \<Rightarrow> state" where
  "induce_damage w level s =
     (let s1 = s\<lparr>var_integrity := var_integrity s - (level * 0.01)\<rparr>;
          s2 = recompute_vars w s1;
          flag = secure_led_animation w (flag_reads s2);
          s3 = s2\<lparr>flag_reads := flag_reads s2 + 1\<rparr>
      in if flag = 0 then s3\<lparr>events := events s3 @ [DamageAnimation]\<rparr> else s3)"

definition circ_damage :: "world \<Rightarrow> state \<Rightarrow> int \<times> state" where
  "circ_damage w s =
     (let ray = 6;
          cs1 = fold (\<lambda>i cs.
                  let diff = sensors s ! i - prev_sensors s ! (i - 1)
                  in if real_of_int \<bar>diff\<bar> < 0.5 * real_of_int (sensors s ! i)
                     then cs[i := (M_PI * ray) / real_of_int TIME] else cs)
                [1..<7] (circ_speed s);
          cs2 = fold (\<lambda>i cs.
                  if real_of_int \<bar>c_trunc (cs ! i - cs ! (i - 1))\<bar> < 0.5 * cs ! i
                  then (cs[i - 1 := cs ! (i - 1) * 2])[i := cs ! i * 2] else cs)
                [1..<7] cs1;
          s1 = s\<lparr>circ_speed := cs2\<rparr>
      in (0, fold (\<lambda>i st. induce_damage w (circ_speed st ! i) st) [0..<7] s1))"

definition speed_damage :: "world \<Rightarrow> state \<Rightarrow> int \<times> state" where
  "speed_damage w s =
     (let sp = fold (\<lambda>i sp.
                 let diff = sensors s ! i - prev_sensors s ! i
                 in if real_of_int \<bar>diff\<bar> > 0.05 * real_of_int (MAX_DIST - MIN_DIST)
                    then sp[i := (sp ! i + real_of_int (diff sdiv TIME)) / 2.0]
                    else sp[i := 0.0])
               [0..<8] (speed s);
          mean = get_mean_normalized_f (indeterminate w (mean_calls s)) sp 8 0.0
                   (real_of_int (MAX_DIST sdiv TIME));
          s1 = s\<lparr>speed := sp, mean_calls := mean_calls s + 1\<rparr>
      in if fgt mean (0.05 * (1.0 / 8.0))
         then (1, fold (\<lambda>i st. if speed st ! i > 0.05 then induce_damage w (speed st ! i) st else st)
                    [0..<8] s1)
         else (0, s1))"

text \<open>\<^verbatim>\<open>||\<close> evaluates its right operand only when the left one is zero.\<close>

definition check_if_damage :: "world \<Rightarrow> state \<Rightarrow> int \<times> state" where
  "check_if_damage w s =
     (let (c, s1) = circ_damage w s
      in if c \<noteq> 0 then (1, s1)
         else let (d, s2) = speed_damage w s1
              in if d \<noteq> 0 then (1, s2) else (0, s2))"

definition update_vars :: "world \<Rightarrow> int \<Rightarrow> state \<Rightarrow> state" where
  "update_vars w loopstart s =
     recompute_vars w
       (if loopstart \<noteq> 0
        then snd (check_if_damage w (get_sensors w (decrease_physoligical_variables s)))
        else s)"

subsection \<open>Behaviours\<close>

definition eat :: "state \<Rightarrow> state" where
  "eat s = s\<lparr>var_energy := var_energy s + 0.05\<rparr>"

definition seek_food :: "state \<Rightarrow> state" where
  "seek_food s = move 0.8 0.8 s"

definition energy_behavioral_group :: "state \<Rightarrow> state" where
  "energy_behavioral_group s =
     (let can_eat = (0::int) in seek_food (if can_eat \<noteq> 0 then eat s else s))"

definition groom_animation :: "state \<Rightarrow> state" where
  "groom_animation s = move 1.0 (- 1.0) (move (- 1.0) 1.0 s)"

definition seek_grooming_spot :: "state \<Rightarrow> state" where
  "seek_grooming_spot s = move 0.8 0.8 s"

definition groom :: "state \<Rightarrow> state" where
  "groom s = groom_animation (s\<lparr>var_energy := var_energy s + 0.05\<rparr>)"

definition tegument_behavioral_group :: "state \<Rightarrow> state" where
  "tegument_behavioral_group s =
     (let can_groom = (0::int) in seek_grooming_spot (if can_groom \<noteq> 0 then groom s else s))"

definition avoid :: "state \<Rightarrow> state" where
  "avoid s =
     (let min' = (0::int); max' = (1023::int);
          normalized_sensors = map (\<lambda>i. real_of_int ((sensors s ! i - min') sdiv (max' - min'))) [0..<8];
          weight_l = replicate 8 (0.0::real);
          weight_r = replicate 8 (0.0::real);
          (l, r) = fold (\<lambda>i (l, r). (l + weight_l ! i * normalized_sensors ! i,
                                       r + weight_r ! i * normalized_sensors ! i))
                     [0..<8] (left_speed s, right_speed s);
          s1 = s\<lparr>left_speed := l / 8, right_speed := r / 8\<rparr>
      in move (left_speed s1) (right_speed s1) s1)"

definition integrity_behavioral_group :: "state \<Rightarrow> state" where
  "integrity_behavioral_group s = avoid s"

definition compute_speed :: "int \<Rightarrow> state \<Rightarrow> state" where
  "compute_speed bhv s =
     (if bhv = 1 then energy_behavioral_group s
      else if bhv = 2 then tegument_behavioral_group s
      else if bhv = 3 then integrity_behavioral_group s
      else s\<lparr>left_speed := 0.0, right_speed := 0.0\<rparr>)"

subsection \<open>The control loop\<close>

text \<open>
  The condition of the \<^verbatim>\<open>while\<close> of \<^verbatim>\<open>model\<close>, and its body (one tick). The counter
  \<^verbatim>\<open>iterator\<close> only paces the printing and is left out with it.
\<close>

definition model_cond :: "state \<Rightarrow> bool" where
  "model_cond s \<longleftrightarrow> var_energy s > 0 \<and> var_tegument s > 0 \<and> var_integrity s > 0"

definition model_tick :: "world \<Rightarrow> state \<Rightarrow> state" where
  "model_tick w s =
     (let s1 = update_vars w 1 s;
          behaviral = winner_takes_all (mot_energy s1) (mot_tegument s1) (mot_integrity s1);
          s2 = compute_speed behaviral s1;
          s3 = move (left_speed s2) (right_speed s2) s2
      in get_sensors_history s3)"

text \<open>The loop may run for ever as far as its text goes: not returning is \<open>None\<close>.\<close>

partial_function (option) model_loop :: "world \<Rightarrow> state \<Rightarrow> state option" where
  "model_loop w s = (if model_cond s then model_loop w (model_tick w s) else Some s)"

definition model :: "world \<Rightarrow> state \<Rightarrow> state option" where
  "model w s = map_option (\<lambda>s'. death_animation (stop_moving s')) (model_loop w (get_sensors w s))"

subsection \<open>The loops by name, and the scenarios\<close>

text \<open>
  The loops of \<^verbatim>\<open>circ_damage\<close> and \<^verbatim>\<open>speed_damage\<close>, each under a name of its own so
  that the proofs can speak about one loop at a time; \<open>circ_damage_loops\<close> and
  \<open>speed_damage_loops\<close> below show that the two functions are built from them.
\<close>

definition circ_loop1 :: "int list \<Rightarrow> int list \<Rightarrow> real list \<Rightarrow> real list" where
  "circ_loop1 xs ps cs0 =
     fold (\<lambda>i cs. let diff = xs ! i - ps ! (i - 1)
                  in if real_of_int \<bar>diff\<bar> < 0.5 * real_of_int (xs ! i)
                     then cs[i := (M_PI * 6) / real_of_int TIME] else cs)
          [1..<7] cs0"

definition circ_loop2 :: "real list \<Rightarrow> real list" where
  "circ_loop2 cs1 =
     fold (\<lambda>i cs. if real_of_int \<bar>c_trunc (cs ! i - cs ! (i - 1))\<bar> < 0.5 * cs ! i
                  then (cs[i - 1 := cs ! (i - 1) * 2])[i := cs ! i * 2] else cs)
          [1..<7] cs1"

definition circ_induce :: "world \<Rightarrow> state \<Rightarrow> state" where
  "circ_induce w s1 = fold (\<lambda>i st. induce_damage w (circ_speed st ! i) st) [0..<7] s1"

definition speed_loop :: "int list \<Rightarrow> int list \<Rightarrow> real list \<Rightarrow> real list" where
  "speed_loop xs ps sp0 =
     fold (\<lambda>i sp. let diff = xs ! i - ps ! i
                  in if real_of_int \<bar>diff\<bar> > 0.05 * real_of_int (MAX_DIST - MIN_DIST)
                     then sp[i := (sp ! i + real_of_int (diff sdiv TIME)) / 2.0]
                     else sp[i := 0.0])
          [0..<8] sp0"

definition speed_induce :: "world \<Rightarrow> state \<Rightarrow> state" where
  "speed_induce w s1 =
     fold (\<lambda>i st. if speed st ! i > 0.05 then induce_damage w (speed st ! i) st else st) [0..<8] s1"

text \<open>
  Two surroundings for the scenarios: every channel reads \<open>r\<close> at every call, or channel 3
  alone reads 480 and the others 0. In both the uninitialised \<^verbatim>\<open>mean\<close> always starts
  from \<open>j\<close> and no animation thread is ever seen running.
\<close>

definition const_world :: "int \<Rightarrow> real \<Rightarrow> world" where
  "const_world r j =
     \<lparr>proximity_ir = (\<lambda>n i. r), indeterminate = (\<lambda>n. j), secure_led_animation = (\<lambda>n. 0)\<rparr>"

definition spike_world :: "real \<Rightarrow> world" where
  "spike_world j =
     \<lparr>proximity_ir = (\<lambda>n i. if i = 3 then 480 else 0), indeterminate = (\<lambda>n. j),
      secure_led_animation = (\<lambda>n. 0)\<rparr>"

text \<open>
  A third surrounding whose frame is constant in time but not uniform: even channels read
  100 and odd channels 480 at every call.
\<close>

definition alternating_world :: "real \<Rightarrow> world" where
  "alternating_world j =
     \<lparr>proximity_ir = (\<lambda>n i. if even i then 100 else 480), indeterminate = (\<lambda>n. j),
      secure_led_animation = (\<lambda>n. 0)\<rparr>"

text \<open>
  The frame that the sensor refresh stores for the raw values \<open>raw\<close>, and the test of the
  first loop of \<^verbatim>\<open>circ_damage\<close> on a frame that is also the previous frame: some channel
  \<open>i\<close> of 1..6 differs from its left neighbour by less than half its own value.
\<close>

definition stored_frame :: "(nat \<Rightarrow> int) \<Rightarrow> int list" where
  "stored_frame raw = map (\<lambda>i. limit_sensval (raw i)) [0..<8]"

definition adjacent_close :: "int list \<Rightarrow> bool" where
  "adjacent_close xs \<longleftrightarrow>
     list_ex (\<lambda>i. real_of_int \<bar>xs ! i - xs ! (i - 1)\<bar> < 0.5 * real_of_int (xs ! i)) [1..<7]"

text \<open>
  The state the loop settles in when the stored frame \<open>F\<close> no longer changes: both
  frames hold \<open>F\<close>, the speed table is zero and no circular speed is negative.
\<close>

definition settled :: "int list \<Rightarrow> state \<Rightarrow> bool" where
  "settled F s \<longleftrightarrow>
     sensors s = F \<and> prev_sensors s = F \<and> speed s = [0, 0, 0, 0, 0, 0, 0, 0] \<and>
     length (circ_speed s) = 7 \<and> list_all (\<lambda>x. 0 \<le> x) (circ_speed s)"

section \<open>Properties\<close>

subsection \<open>Arithmetic and list facts\<close>

lemma upt_0_8: "[0..<8] = [0, 1, 2, 3, 4, 5, 6, 7]"
  by (simp add: upt_rec)

lemma upt_0_7: "[0..<7] = [0, 1, 2, 3, 4, 5, 6]"
  by (simp add: upt_rec)

lemma upt_1_7: "[Suc 0..<7] = [1, 2, 3, 4, 5, 6]"
  by (simp add: upt_rec)

lemma length_8: "length xs = 8 \<Longrightarrow> \<exists>a b c d e f g h. xs = [a, b, c, d, e, f, g, h]"
  by (auto simp add: eval_nat_numeral length_Suc_conv)

lemma c_trunc_small: "\<bar>x\<bar> < 1 \<Longrightarrow> c_trunc x = 0"
  unfolding c_trunc_def by (auto simp: floor_eq_iff ceiling_eq_iff)

lemma sdiv_small: "\<bar>d\<bar> < \<bar>b\<bar> \<Longrightarrow> d sdiv b = (0::int)"
  by (simp add: signed_divide_int_def)

lemma circ_k: "0 < M_PI * 6 / real_of_int TIME" "M_PI * 6 / real_of_int TIME < 1"
  by (simp_all add: M_PI_def TIME_def)

lemma fold_keeps:
  assumes "\<And>i st. f (h i st) = f st"
  shows "f (fold h xs s) = f s"
  by (induction xs arbitrary: s) (simp_all add: assms)

lemma ten_ticks: "(f ^^ 10) s = (f ^^ 9) (f s)"
proof -
  have "(10::nat) = Suc 9" by simp
  then show ?thesis by (simp only: funpow_Suc_right o_apply)
qed

subsection \<open>Scenario states\<close>

lemma const_world_fields [simp]:
  "proximity_ir (const_world r j) = (\<lambda>n i. r)"
  "indeterminate (const_world r j) = (\<lambda>n. j)"
  "secure_led_animation (const_world r j) = (\<lambda>n. 0)"
  by (simp_all add: const_world_def)

lemma spike_world_fields [simp]:
  "proximity_ir (spike_world j) = (\<lambda>n i. if i = 3 then 480 else 0)"
  "indeterminate (spike_world j) = (\<lambda>n. j)"
  "secure_led_animation (spike_world j) = (\<lambda>n. 0)"
  by (simp_all add: spike_world_def)

lemma alternating_world_fields [simp]:
  "proximity_ir (alternating_world j) = (\<lambda>n i. if even i then 100 else 480)"
  "indeterminate (alternating_world j) = (\<lambda>n. j)"
  "secure_led_animation (alternating_world j) = (\<lambda>n. 0)"
  by (simp_all add: alternating_world_def)

lemma init_state_fields:
  "prev_sensors init_state = [0, 0, 0, 0, 0, 0, 0, 0]"
  "sensors init_state = [0, 0, 0, 0, 0, 0, 0, 0]"
  "speed init_state = [0, 0, 0, 0, 0, 0, 0, 0]"
  "circ_speed init_state = [0, 0, 0, 0, 0, 0, 0]"
  "var_energy init_state = 1" "var_tegument init_state = 1" "var_integrity init_state = 1"
  by (simp_all add: init_state_def eval_nat_numeral)

subsection \<open>What each function leaves alone\<close>

lemma recompute_vars_fields [simp]:
  "var_energy (recompute_vars w s) = var_energy s"
  "var_tegument (recompute_vars w s) = var_tegument s"
  "var_integrity (recompute_vars w s) = var_integrity s"
  "sensors (recompute_vars w s) = sensors s"
  "prev_sensors (recompute_vars w s) = prev_sensors s"
  "speed (recompute_vars w s) = speed s"
  "circ_speed (recompute_vars w s) = circ_speed s"
  "left_speed (recompute_vars w s) = left_speed s"
  "right_speed (recompute_vars w s) = right_speed s"
  "ir_calls (recompute_vars w s) = ir_calls s"
  "events (recompute_vars w s) = events s"
  by (simp_all add: recompute_vars_def compute_motivations_def compute_cues_def compute_deficit_def)

lemma recompute_vars_all:
  "def_energy (recompute_vars w s) = 1 - var_energy s"
  "def_tegument (recompute_vars w s) = 1 - var_tegument s"
  "def_integrity (recompute_vars w s) = 1 - var_integrity s"
  "cue_energy (recompute_vars w s) = 0.06"
  "cue_tegument (recompute_vars w s) = 0.055"
  "cue_integrity (recompute_vars w s) =
     get_mean_normalized (indeterminate w (mean_calls s)) (sensors s) 8 MIN_DIST MAX_DIST"
  "mot_energy (recompute_vars w s) = (1 - var_energy s) + (1 - var_energy s) * 0.06"
  "mot_tegument (recompute_vars w s) = (1 - var_tegument s) + (1 - var_tegument s) * 0.055"
  "mot_integrity (recompute_vars w s) = (1 - var_integrity s) + (1 - var_integrity s) *
     get_mean_normalized (indeterminate w (mean_calls s)) (sensors s) 8 MIN_DIST MAX_DIST"
  by (simp_all add: recompute_vars_def compute_motivations_def compute_deficit_def compute_cues_def)

lemma update_vars_0: "update_vars w 0 s = recompute_vars w s"
  by (simp add: update_vars_def)

lemma induce_damage_fields [simp]:
  "var_energy (induce_damage w l s) = var_energy s"
  "var_tegument (induce_damage w l s) = var_tegument s"
  "var_integrity (induce_damage w l s) = var_integrity s - l * 0.01"
  "sensors (induce_damage w l s) = sensors s"
  "prev_sensors (induce_damage w l s) = prev_sensors s"
  "speed (induce_damage w l s) = speed s"
  "circ_speed (induce_damage w l s) = circ_speed s"
  "left_speed (induce_damage w l s) = left_speed s"
  "right_speed (induce_damage w l s) = right_speed s"
  "ir_calls (induce_damage w l s) = ir_calls s"
  by (simp_all add: induce_damage_def Let_def)

lemma induce_damage_recompute:
  "def_energy (induce_damage w m s) = def_energy (recompute_vars w (s\<lparr>var_integrity := var_integrity s - m * 0.01\<rparr>))"
  "def_tegument (induce_damage w m s) = def_tegument (recompute_vars w (s\<lparr>var_integrity := var_integrity s - m * 0.01\<rparr>))"
  "def_integrity (induce_damage w m s) = def_integrity (recompute_vars w (s\<lparr>var_integrity := var_integrity s - m * 0.01\<rparr>))"
  "cue_energy (induce_damage w m s) = cue_energy (recompute_vars w (s\<lparr>var_integrity := var_integrity s - m * 0.01\<rparr>))"
  "cue_tegument (induce_damage w m s) = cue_tegument (recompute_vars w (s\<lparr>var_integrity := var_integrity s - m * 0.01\<rparr>))"
  "cue_integrity (induce_damage w m s) = cue_integrity (recompute_vars w (s\<lparr>var_integrity := var_integrity s - m * 0.01\<rparr>))"
  "mot_energy (induce_damage w m s) = mot_energy (recompute_vars w (s\<lparr>var_integrity := var_integrity s - m * 0.01\<rparr>))"
  "mot_tegument (induce_damage w m s) = mot_tegument (recompute_vars w (s\<lparr>var_integrity := var_integrity s - m * 0.01\<rparr>))"
  "mot_integrity (induce_damage w m s) = mot_integrity (recompute_vars w (s\<lparr>var_integrity := var_integrity s - m * 0.01\<rparr>))"
  by (simp_all add: induce_damage_def Let_def)

lemma decrease_fields [simp]:
  "var_energy (decrease_physoligical_variables s) = var_energy s - 0.004"
  "var_tegument (decrease_physoligical_variables s) = var_tegument s - 0.0015"
  "var_integrity (decrease_physoligical_variables s) = var_integrity s"
  "sensors (decrease_physoligical_variables s) = sensors s"
  "prev_sensors (decrease_physoligical_variables s) = prev_sensors s"
  "speed (decrease_physoligical_variables s) = speed s"
  "circ_speed (decrease_physoligical_variables s) = circ_speed s"
  "ir_calls (decrease_physoligical_variables s) = ir_calls s"
  by (simp_all add: decrease_physoligical_variables_def)

lemma get_sensors_fields [simp]:
  "var_energy (get_sensors w s) = var_energy s"
  "var_tegument (get_sensors w s) = var_tegument s"
  "var_integrity (get_sensors w s) = var_integrity s"
  "prev_sensors (get_sensors w s) = prev_sensors s"
  "speed (get_sensors w s) = speed s"
  "circ_speed (get_sensors w s) = circ_speed s"
  "ir_calls (get_sensors w s) = ir_calls s + 1"
  by (simp_all add: get_sensors_def)

lemma sensors_get_sensors_decrease [simp]:
  "sensors (get_sensors w (decrease_physoligical_variables s)) = sensors (get_sensors w s)"
  by (simp add: get_sensors_def)

lemma compute_speed_fields [simp]:
  "var_energy (compute_speed b s) = var_energy s"
  "var_tegument (compute_speed b s) = var_tegument s"
  "var_integrity (compute_speed b s) = var_integrity s"
  "sensors (compute_speed b s) = sensors s"
  "prev_sensors (compute_speed b s) = prev_sensors s"
  "speed (compute_speed b s) = speed s"
  "circ_speed (compute_speed b s) = circ_speed s"
  "ir_calls (compute_speed b s) = ir_calls s"
  by (simp_all add: compute_speed_def energy_behavioral_group_def tegument_behavioral_group_def
      integrity_behavioral_group_def avoid_def seek_food_def seek_grooming_spot_def move_def
      Let_def split: prod.splits)

subsection \<open>The two damage functions, loop by loop\<close>

lemma circ_damage_loops:
  "circ_damage w s =
     (0, circ_induce w (s\<lparr>circ_speed := circ_loop2 (circ_loop1 (sensors s) (prev_sensors s) (circ_speed s))\<rparr>))"
  unfolding circ_damage_def circ_loop1_def circ_loop2_def circ_induce_def Let_def by (rule refl)

lemma speed_damage_loops:
  "speed_damage w s =
     (let sp = speed_loop (sensors s) (prev_sensors s) (speed s);
          s1 = s\<lparr>speed := sp, mean_calls := mean_calls s + 1\<rparr>
      in if fgt (get_mean_normalized_f (indeterminate w (mean_calls s)) sp 8 0.0
                   (real_of_int (MAX_DIST sdiv TIME))) (0.05 * (1.0 / 8.0))
         then (1, speed_induce w s1) else (0, s1))"
  unfolding speed_damage_def speed_loop_def speed_induce_def Let_def by (rule refl)

lemma circ_induce_fields [simp]:
  "var_energy (circ_induce w s) = var_energy s"
  "var_tegument (circ_induce w s) = var_tegument s"
  "sensors (circ_induce w s) = sensors s"
  "prev_sensors (circ_induce w s) = prev_sensors s"
  "speed (circ_induce w s) = speed s"
  "circ_speed (circ_induce w s) = circ_speed s"
  "left_speed (circ_induce w s) = left_speed s"
  "right_speed (circ_induce w s) = right_speed s"
  "ir_calls (circ_induce w s) = ir_calls s"
  unfolding circ_induce_def by (rule fold_keeps, simp)+

lemma speed_induce_fields [simp]:
  "var_energy (speed_induce w s) = var_energy s"
  "var_tegument (speed_induce w s) = var_tegument s"
  "sensors (speed_induce w s) = sensors s"
  "prev_sensors (speed_induce w s) = prev_sensors s"
  "speed (speed_induce w s) = speed s"
  "circ_speed (speed_induce w s) = circ_speed s"
  "left_speed (speed_induce w s) = left_speed s"
  "right_speed (speed_induce w s) = right_speed s"
  "ir_calls (speed_induce w s) = ir_calls s"
  unfolding speed_induce_def by (rule fold_keeps, simp)+

lemma var_integrity_fold_induce:
  "var_integrity (fold (\<lambda>i st. induce_damage w (circ_speed st ! i) st) xs s) =
     var_integrity s - (\<Sum>i\<leftarrow>xs. circ_speed s ! i) * 0.01"
proof (induction xs arbitrary: s)
  case Nil
  show ?case by simp
next
  case (Cons a xs)
  show ?case by (simp add: Cons.IH add_divide_distrib)
qed

lemma var_integrity_circ_induce:
  "var_integrity (circ_induce w s) = var_integrity s - (\<Sum>i\<leftarrow>[0..<7]. circ_speed s ! i) * 0.01"
  unfolding circ_induce_def by (rule var_integrity_fold_induce)

lemma speed_induce_quiet:
  assumes "speed s = [0, 0, 0, 0, 0, 0, 0, 0]"
  shows "speed_induce w s = s"
  using assms by (simp add: speed_induce_def upt_0_8)

lemma fst_circ_damage: "fst (circ_damage w s) = 0"
  by (simp add: circ_damage_loops)

lemma check_if_damage_eq:
  "check_if_damage w s =
     (if fst (speed_damage w (snd (circ_damage w s))) \<noteq> 0 then 1 else 0,
      snd (speed_damage w (snd (circ_damage w s))))"
  by (simp add: check_if_damage_def circ_damage_loops Let_def split: prod.splits)

lemma circ_damage_fields [simp]:
  "var_energy (snd (circ_damage w s)) = var_energy s"
  "var_tegument (snd (circ_damage w s)) = var_tegument s"
  "sensors (snd (circ_damage w s)) = sensors s"
  "prev_sensors (snd (circ_damage w s)) = prev_sensors s"
  "speed (snd (circ_damage w s)) = speed s"
  "left_speed (snd (circ_damage w s)) = left_speed s"
  "right_speed (snd (circ_damage w s)) = right_speed s"
  "ir_calls (snd (circ_damage w s)) = ir_calls s"
  "circ_speed (snd (circ_damage w s)) = circ_loop2 (circ_loop1 (sensors s) (prev_sensors s) (circ_speed s))"
  by (simp_all add: circ_damage_loops)

lemma var_integrity_circ_damage:
  "var_integrity (snd (circ_damage w s)) =
     var_integrity s - (\<Sum>i\<leftarrow>[0..<7]. circ_loop2 (circ_loop1 (sensors s) (prev_sensors s) (circ_speed s)) ! i) * 0.01"
  by (simp add: circ_damage_loops var_integrity_circ_induce)

lemma speed_damage_fields [simp]:
  "var_energy (snd (speed_damage w s)) = var_energy s"
  "var_tegument (snd (speed_damage w s)) = var_tegument s"
  "sensors (snd (speed_damage w s)) = sensors s"
  "prev_sensors (snd (speed_damage w s)) = prev_sensors s"
  "circ_speed (snd (speed_damage w s)) = circ_speed s"
  "left_speed (snd (speed_damage w s)) = left_speed s"
  "right_speed (snd (speed_damage w s)) = right_speed s"
  "ir_calls (snd (speed_damage w s)) = ir_calls s"
  "speed (snd (speed_damage w s)) = speed_loop (sensors s) (prev_sensors s) (speed s)"
  by (simp_all add: speed_damage_loops Let_def)

lemma speed_damage_quiet:
  assumes "speed_loop (sensors s) (prev_sensors s) (speed s) = [0, 0, 0, 0, 0, 0, 0, 0]"
  shows "snd (speed_damage w s) = s\<lparr>speed := [0, 0, 0, 0, 0, 0, 0, 0], mean_calls := mean_calls s + 1\<rparr>"
  by (simp add: speed_damage_loops Let_def assms speed_induce_quiet)

lemma var_integrity_speed_damage_quiet:
  assumes "speed_loop (sensors s) (prev_sensors s) (speed s) = [0, 0, 0, 0, 0, 0, 0, 0]"
  shows "var_integrity (snd (speed_damage w s)) = var_integrity s"
  by (simp add: speed_damage_quiet [OF assms])

lemma mean_f_zero_speed:
  "get_mean_normalized_f m0 [0, 0, 0, 0, 0, 0, 0, 0] 8 0 (real_of_int (MAX_DIST sdiv TIME)) =
     (if m0 > 0 then PInf else if m0 < 0 then NInf else NaN)"
  by (simp add: get_mean_normalized_f_def upt_0_8 fdiv_def sdiv_small MAX_DIST_def TIME_def)

lemma speed_damage_quiet_full:
  assumes "speed_loop (sensors s) (prev_sensors s) (speed s) = [0, 0, 0, 0, 0, 0, 0, 0]"
  shows "speed_damage w s =
     (if indeterminate w (mean_calls s) > 0 then 1 else 0,
      s\<lparr>speed := [0, 0, 0, 0, 0, 0, 0, 0], mean_calls := mean_calls s + 1\<rparr>)"
  by (simp add: speed_damage_loops Let_def assms speed_induce_quiet mean_f_zero_speed)

subsection \<open>The loops on constant frames\<close>

lemma circ_loop2_zero: "circ_loop2 [0, 0, 0, 0, 0, 0, 0] = [0, 0, 0, 0, 0, 0, 0]"
  by (simp add: circ_loop2_def upt_1_7 c_trunc_small)

lemma speed_loop_steady:
  assumes "\<bar>c\<bar> < TIME" 
  shows "speed_loop [c, c, c, c, c, c, c, c] [c, c, c, c, c, c, c, c] [0, 0, 0, 0, 0, 0, 0, 0] = [0, 0, 0, 0, 0, 0, 0, 0]"
    and "speed_loop [c, c, c, c, c, c, c, c] [0, 0, 0, 0, 0, 0, 0, 0] [0, 0, 0, 0, 0, 0, 0, 0] = [0, 0, 0, 0, 0, 0, 0, 0]"
  using assms by (simp_all add: speed_loop_def upt_0_8 sdiv_small TIME_def)

lemma speed_loop_spike:
  "speed_loop [0, 0, 0, 200, 0, 0, 0, 0] [0, 0, 0, 0, 0, 0, 0, 0] [0, 0, 0, 0, 0, 0, 0, 0] =
     [0, 0, 0, 0, 0, 0, 0, 0]"
  by (simp add: speed_loop_def upt_0_8 sdiv_small TIME_def MAX_DIST_def MIN_DIST_def)

subsection \<open>One tick\<close>

lemma update_vars_loopstart:
  "update_vars w 1 s =
     recompute_vars w (snd (speed_damage w (snd (circ_damage w (get_sensors w (decrease_physoligical_variables s))))))"
  by (simp add: update_vars_def check_if_damage_eq)

lemma model_tick_fields:
  "var_energy (model_tick w s) = var_energy s - 0.004"
  "var_tegument (model_tick w s) = var_tegument s - 0.0015"
  "sensors (model_tick w s) = sensors (get_sensors w s)"
  "circ_speed (model_tick w s) = circ_loop2 (circ_loop1 (sensors (get_sensors w s)) (prev_sensors s) (circ_speed s))"
  "speed (model_tick w s) = speed_loop (sensors (get_sensors w s)) (prev_sensors s) (speed s)"
  "prev_sensors (model_tick w s) = fold (\<lambda>i ps. ps[i := sensors (get_sensors w s) ! i]) [0..<8] (prev_sensors s)"
  "ir_calls (model_tick w s) = ir_calls s + 1"
  by (simp_all add: model_tick_def Let_def get_sensors_history_def move_def update_vars_loopstart)

lemma var_integrity_model_tick_quiet:
  assumes "speed_loop (sensors (get_sensors w s)) (prev_sensors s) (speed s) = [0, 0, 0, 0, 0, 0, 0, 0]"
  shows "var_integrity (model_tick w s) =
     var_integrity s - (\<Sum>i\<leftarrow>[0..<7]. circ_loop2 (circ_loop1 (sensors (get_sensors w s)) (prev_sensors s) (circ_speed s)) ! i) * 0.01"
proof -
  let ?s1 = "get_sensors w (decrease_physoligical_variables s)"
  have q: "speed_loop (sensors (snd (circ_damage w ?s1))) (prev_sensors (snd (circ_damage w ?s1)))
             (speed (snd (circ_damage w ?s1))) = [0, 0, 0, 0, 0, 0, 0, 0]"
    using assms by simp
  show ?thesis
    by (simp add: model_tick_def Let_def get_sensors_history_def move_def update_vars_loopstart
        var_integrity_speed_damage_quiet [OF q] var_integrity_circ_damage)
qed

lemma ticks_energy:
  "var_energy ((model_tick w ^^ n) s) = var_energy s - 0.004 * real n"
proof (induction n)
  case 0
  show ?case by simp
next
  case (Suc n)
  have "var_energy ((model_tick w ^^ Suc n) s) = var_energy ((model_tick w ^^ n) s) - 0.004"
    by (simp add: model_tick_fields)
  also have "\<dots> = var_energy s - 0.004 * real n - 0.004" by (simp only: Suc.IH)
  also have "\<dots> = var_energy s - 0.004 * real (Suc n)" by (simp add: algebra_simps)
  finally show ?case .
qed

lemma ticks_tegument:
  "var_tegument ((model_tick w ^^ n) s) = var_tegument s - 0.0015 * real n"
proof (induction n)
  case 0
  show ?case by simp
next
  case (Suc n)
  have "var_tegument ((model_tick w ^^ Suc n) s) = var_tegument ((model_tick w ^^ n) s) - 0.0015"
    by (simp add: model_tick_fields)
  also have "\<dots> = var_tegument s - 0.0015 * real n - 0.0015" by (simp only: Suc.IH)
  also have "\<dots> = var_tegument s - 0.0015 * real (Suc n)" by (simp add: algebra_simps)
  finally show ?case .
qed

subsection \<open>Sensor frames and cues\<close>

lemma limit_sensval_0: "limit_sensval 0 = 0"
  by (simp add: limit_sensval_def MAX_DIST_def MIN_DIST_def)

lemma sensors_get_sensors:
  assumes "length (sensors s) = 8"
  shows "sensors (get_sensors w s) = map (\<lambda>i. limit_sensval (proximity_ir w (ir_calls s) i)) [0..<8]"
proof -
  from length_8 [OF assms] obtain a b c d e f g h where "sensors s = [a, b, c, d, e, f, g, h]"
    by blast
  then show ?thesis by (simp add: get_sensors_def upt_0_8)
qed

lemma get_sensors_const:
  assumes "proximity_ir w = (\<lambda>n i. r)" "length (sensors s) = 8"
  shows "sensors (get_sensors w s) =
    [limit_sensval r, limit_sensval r, limit_sensval r, limit_sensval r,
     limit_sensval r, limit_sensval r, limit_sensval r, limit_sensval r]"
proof -
  from length_8 [OF assms(2)] obtain a b c d e f g h where "sensors s = [a, b, c, d, e, f, g, h]"
    by blast
  then show ?thesis by (simp add: get_sensors_def assms(1) upt_0_8)
qed

lemma get_sensors_init_const:
  "sensors (get_sensors (const_world r j) init_state) =
    [limit_sensval r, limit_sensval r, limit_sensval r, limit_sensval r,
     limit_sensval r, limit_sensval r, limit_sensval r, limit_sensval r]"
  by (rule get_sensors_const) (simp_all add: init_state_fields)

lemma get_sensors_init_spike:
  "sensors (get_sensors (spike_world j) init_state) = [0, 0, 0, 200, 0, 0, 0, 0]"
  by (simp add: get_sensors_def init_state_fields upt_0_8 limit_sensval_def MAX_DIST_def MIN_DIST_def
      drop_bit_eq_div)

lemma cue_integrity_compute_cues:
  "cue_integrity (compute_cues w s) =
     get_mean_normalized (indeterminate w (mean_calls s)) (sensors s) 8 MIN_DIST MAX_DIST"
  by (simp add: compute_cues_def)

lemma get_mean_normalized_8:
  "get_mean_normalized m0 [a, b, c, d, e, f, g, h] 8 MIN_DIST MAX_DIST =
     ((m0 + real_of_int (a + b + c + d + e + f + g + h)) / 8 - 80) / 420"
  by (simp add: get_mean_normalized_def upt_0_8 MIN_DIST_def MAX_DIST_def)

subsection \<open>Frames that are constant in time\<close>

lemma limit_sensval_range: "0 \<le> limit_sensval x" "limit_sensval x \<le> 500"
  by (auto simp add: limit_sensval_def MAX_DIST_def MIN_DIST_def drop_bit_eq_div)

lemma stored_frame_nth:
  "length (stored_frame raw) = 8"
  "i < 8 \<Longrightarrow> stored_frame raw ! i = limit_sensval (raw i)"
  by (simp_all add: stored_frame_def del: upt_Suc)

lemma sensors_get_sensors_frame:
  assumes "proximity_ir w = (\<lambda>n. raw)" "length (sensors s) = 8"
  shows "sensors (get_sensors w s) = stored_frame raw"
  by (simp add: sensors_get_sensors [OF assms(2)] assms(1) stored_frame_def)

lemma replicate_update_same: "(replicate n x)[i := x] = replicate n x"
proof (rule nth_equalityI)
  show "length ((replicate n x)[i := x]) = length (replicate n x)" by simp
next
  fix j assume "j < length ((replicate n x)[i := x])"
  then have "j < n" by simp
  then show "(replicate n x)[i := x] ! j = replicate n x ! j"
    by (cases "i = j") (simp_all add: nth_list_update)
qed

lemma speed_fold_zero:
  assumes "\<forall>i\<in>set js. i < 8 \<and> (xs ! i - ps ! i) sdiv TIME = 0"
  shows "fold (\<lambda>i sp. if real_of_int \<bar>xs ! i - ps ! i\<bar> > 0.05 * real_of_int (MAX_DIST - MIN_DIST)
                    then sp[i := (sp ! i + real_of_int ((xs ! i - ps ! i) sdiv TIME)) / 2.0]
                    else sp[i := 0.0]) js (replicate 8 0) = replicate 8 0"
  using assms by (induction js) (simp_all add: replicate_update_same)

lemma speed_loop_zero:
  assumes "\<forall>i<8. \<bar>xs ! i - ps ! i\<bar> < TIME"
  shows "speed_loop xs ps [0, 0, 0, 0, 0, 0, 0, 0] = [0, 0, 0, 0, 0, 0, 0, 0]"
proof -
  have "\<bar>xs ! i - ps ! i\<bar> < \<bar>TIME\<bar>" if "i < 8" for i
    using assms that by (simp add: TIME_def)
  then have z: "\<forall>i\<in>set [0..<8]. i < 8 \<and> (xs ! i - ps ! i) sdiv TIME = 0"
    by (simp add: sdiv_small)
  have r: "replicate 8 (0::real) = [0, 0, 0, 0, 0, 0, 0, 0]"
    by (simp add: eval_nat_numeral)
  show ?thesis
    unfolding speed_loop_def Let_def r [symmetric] by (rule speed_fold_zero [OF z])
qed

lemma history_copy:
  assumes "length ps = 8" "length xs = 8"
  shows "fold (\<lambda>i ps. ps[i := xs ! i]) [0..<8] ps = xs"
proof -
  from length_8 [OF assms(1)] obtain a b c d e f g h where p: "ps = [a, b, c, d, e, f, g, h]"
    by blast
  from length_8 [OF assms(2)] obtain a' b' c' d' e' f' g' h' where
    x: "xs = [a', b', c', d', e', f', g', h']"
    by blast
  show ?thesis by (simp add: p x upt_0_8)
qed

lemma fold_cond_update_length:
  "length (fold (\<lambda>i cs. if P i then cs[i := v] else cs) js cs) = length cs"
  by (induction js arbitrary: cs) simp_all

lemma fold_cond_update_nth:
  "j < length cs \<Longrightarrow>
   fold (\<lambda>i cs. if P i then cs[i := v] else cs) js cs ! j = (if j \<in> set js \<and> P j then v else cs ! j)"
proof (induction js arbitrary: cs)
  case Nil
  show ?case by simp
next
  case (Cons a js)
  show ?case
  proof (cases "P a")
    case True
    have "fold (\<lambda>i cs. if P i then cs[i := v] else cs) (a # js) cs ! j =
          fold (\<lambda>i cs. if P i then cs[i := v] else cs) js (cs[a := v]) ! j"
      using True by simp
    also have "\<dots> = (if j \<in> set js \<and> P j then v else cs[a := v] ! j)"
      using Cons.prems by (intro Cons.IH) simp
    also have "\<dots> = (if j \<in> set (a # js) \<and> P j then v else cs ! j)"
      using Cons.prems True by (cases "a = j") (auto simp add: nth_list_update)
    finally show ?thesis .
  next
    case False
    then show ?thesis using Cons.IH [OF Cons.prems] by auto
  qed
qed

lemma circ_loop1_length: "length (circ_loop1 xs ps cs) = length cs"
  unfolding circ_loop1_def Let_def by (rule fold_cond_update_length)

lemma circ_loop1_nth:
  "j < length cs \<Longrightarrow>
   circ_loop1 xs ps cs ! j =
     (if j \<in> set [1..<7] \<and> real_of_int \<bar>xs ! j - ps ! (j - 1)\<bar> < 0.5 * real_of_int (xs ! j)
      then M_PI * 6 / real_of_int TIME else cs ! j)"
  unfolding circ_loop1_def Let_def
  by (rule fold_cond_update_nth
      [where P = "\<lambda>i. real_of_int \<bar>xs ! i - ps ! (i - 1)\<bar> < 0.5 * real_of_int (xs ! i)"])

lemma circ_fold2_grows:
  assumes "\<forall>j<length cs. 0 \<le> cs ! j"
  shows "length (fold (\<lambda>i cs. if real_of_int \<bar>c_trunc (cs ! i - cs ! (i - 1))\<bar> < 0.5 * cs ! i
                  then (cs[i - 1 := cs ! (i - 1) * 2])[i := cs ! i * 2] else cs) js cs) = length cs \<and>
         (\<forall>j<length cs. cs ! j \<le> fold (\<lambda>i cs. if real_of_int \<bar>c_trunc (cs ! i - cs ! (i - 1))\<bar> < 0.5 * cs ! i
                  then (cs[i - 1 := cs ! (i - 1) * 2])[i := cs ! i * 2] else cs) js cs ! j)"
  using assms
proof (induction js arbitrary: cs)
  case Nil
  show ?case by simp
next
  case (Cons a js)
  let ?f = "\<lambda>i cs. if real_of_int \<bar>c_trunc (cs ! i - cs ! (i - 1))\<bar> < 0.5 * cs ! i
                  then (cs[i - 1 := cs ! (i - 1) * 2])[i := cs ! i * 2] else cs"
  let ?cs = "?f a cs"
  have len: "length ?cs = length cs" by simp
  have up: "cs ! j \<le> ?cs ! j" if "j < length cs" for j
  proof -
    from Cons.prems that have p: "0 \<le> cs ! j" by blast
    have "(cs[a - 1 := cs ! (a - 1) * 2])[a := cs ! a * 2] ! j =
        (if j = a then cs ! a * 2 else if j = a - 1 then cs ! (a - 1) * 2 else cs ! j)"
      using that by (simp add: nth_list_update)
    then have "cs ! j \<le> (cs[a - 1 := cs ! (a - 1) * 2])[a := cs ! a * 2] ! j"
      using p by (simp split: if_splits)
    then show ?thesis by simp
  qed
  have nn: "\<forall>j<length ?cs. 0 \<le> ?cs ! j"
  proof (intro allI impI)
    fix j assume "j < length ?cs"
    then have j: "j < length cs" by (simp only: len)
    from Cons.prems j have "0 \<le> cs ! j" by blast
    with up [OF j] show "0 \<le> ?cs ! j" by linarith
  qed
  from Cons.IH [OF nn] have ih: "length (fold ?f js ?cs) = length ?cs"
    "\<forall>j<length ?cs. ?cs ! j \<le> fold ?f js ?cs ! j" by blast+
  have "length (fold ?f (a # js) cs) = length cs"
    using ih(1) len by simp
  moreover have "\<forall>j<length cs. cs ! j \<le> fold ?f (a # js) cs ! j"
  proof (intro allI impI)
    fix j assume j: "j < length cs"
    then have "?cs ! j \<le> fold ?f js ?cs ! j" using ih(2) len by simp
    with up [OF j] show "cs ! j \<le> fold ?f (a # js) cs ! j" by simp
  qed
  ultimately show ?case by blast
qed

lemma circ_loop2_grows:
  assumes "\<forall>j<length cs. 0 \<le> cs ! j"
  shows "length (circ_loop2 cs) = length cs" "j < length cs \<Longrightarrow> cs ! j \<le> circ_loop2 cs ! j"
  using circ_fold2_grows [OF assms, of "[1..<7]"] unfolding circ_loop2_def by blast+

lemma zeros_8: "[0, 0, 0, 0, 0, 0, 0, 0] = replicate 8 (0::'a::zero)"
  by (simp add: eval_nat_numeral)

lemma zeros_7: "[0, 0, 0, 0, 0, 0, 0] = replicate 7 (0::'a::zero)"
  by (simp add: eval_nat_numeral)

lemma sum_7: "(\<Sum>i\<leftarrow>[0..<7]. cs ! i) = cs ! 0 + cs ! 1 + cs ! 2 + cs ! 3 + cs ! 4 + cs ! 5 + cs ! (6::nat)"
  for cs :: "real list"
  by (simp add: upt_0_7)

lemma sum_7_bounds:
  fixes cs :: "real list"
  assumes "\<forall>j<7. 0 \<le> cs ! j"
  shows "0 \<le> (\<Sum>i\<leftarrow>[0..<7]. cs ! i)" and "j < 7 \<Longrightarrow> cs ! j \<le> (\<Sum>i\<leftarrow>[0..<7]. cs ! i)"
proof -
  have n: "0 \<le> cs ! 0" "0 \<le> cs ! 1" "0 \<le> cs ! 2" "0 \<le> cs ! 3" "0 \<le> cs ! 4" "0 \<le> cs ! 5" "0 \<le> cs ! 6"
    using assms by simp_all
  show "0 \<le> (\<Sum>i\<leftarrow>[0..<7]. cs ! i)"
    unfolding sum_7 using n by linarith
  assume "j < 7"
  then consider "j = 0" | "j = 1" | "j = 2" | "j = 3" | "j = 4" | "j = 5" | "j = 6" by linarith
  then show "cs ! j \<le> (\<Sum>i\<leftarrow>[0..<7]. cs ! i)"
    unfolding sum_7 using n by cases simp_all
qed

lemma circ_loops_settled:
  fixes F :: "int list" and cs :: "real list"
  assumes len: "length cs = 7" and nn: "\<forall>j<7. 0 \<le> cs ! j"
  shows "length (circ_loop2 (circ_loop1 F P cs)) = 7"
    and "\<forall>j<7. 0 \<le> circ_loop2 (circ_loop1 F P cs) ! j"
    and "j \<in> set [1..<7] \<Longrightarrow> real_of_int \<bar>F ! j - P ! (j - 1)\<bar> < 0.5 * real_of_int (F ! j) \<Longrightarrow>
           M_PI * 6 / real_of_int TIME \<le> circ_loop2 (circ_loop1 F P cs) ! j"
proof -
  let ?c1 = "circ_loop1 F P cs"
  have l1: "length ?c1 = 7" by (simp add: circ_loop1_length len)
  have n1: "\<forall>j<length ?c1. 0 \<le> ?c1 ! j"
  proof (intro allI impI)
    fix j assume "j < length ?c1"
    then have j: "j < 7" by (simp only: l1)
    then have "0 \<le> cs ! j" using nn by blast
    then show "0 \<le> ?c1 ! j"
      using circ_k(1) j by (simp add: circ_loop1_nth len del: set_upt)
  qed
  note g = circ_loop2_grows [OF n1]
  show "length (circ_loop2 ?c1) = 7" using g(1) l1 by simp
  show "\<forall>j<7. 0 \<le> circ_loop2 ?c1 ! j"
  proof (intro allI impI)
    fix j :: nat assume j: "j < 7"
    then have "?c1 ! j \<le> circ_loop2 ?c1 ! j" using g(2) l1 by simp
    moreover have "0 \<le> ?c1 ! j" using n1 j l1 by simp
    ultimately show "0 \<le> circ_loop2 ?c1 ! j" by linarith
  qed
  assume f: "j \<in> set [1..<7]" "real_of_int \<bar>F ! j - P ! (j - 1)\<bar> < 0.5 * real_of_int (F ! j)"
  then have j: "j < 7" by simp
  have "?c1 ! j = M_PI * 6 / real_of_int TIME"
    using f j by (simp add: circ_loop1_nth len del: set_upt)
  moreover have "?c1 ! j \<le> circ_loop2 ?c1 ! j" using g(2) l1 j by simp
  ultimately show "M_PI * 6 / real_of_int TIME \<le> circ_loop2 ?c1 ! j" by simp
qed

lemma circ_loops_quiet:
  fixes F :: "int list"
  assumes "\<not> list_ex (\<lambda>i. real_of_int \<bar>F ! i - P ! (i - 1)\<bar> < 0.5 * real_of_int (F ! i)) [1..<7]"
  shows "circ_loop2 (circ_loop1 F P [0, 0, 0, 0, 0, 0, 0]) = [0, 0, 0, 0, 0, 0, 0]"
proof -
  have "circ_loop1 F P [0, 0, 0, 0, 0, 0, 0] = [0, 0, 0, 0, 0, 0, 0]"
  proof (rule nth_equalityI)
    show "length (circ_loop1 F P [0, 0, 0, 0, 0, 0, 0]) = length [0::real, 0, 0, 0, 0, 0, 0]"
      by (simp add: circ_loop1_length)
  next
    fix j assume "j < length (circ_loop1 F P [0, 0, 0, 0, 0, 0, 0])"
    then have j: "j < length [0::real, 0, 0, 0, 0, 0, 0]" by (simp add: circ_loop1_length)
    have "\<not> (j \<in> set [1..<7] \<and> real_of_int \<bar>F ! j - P ! (j - 1)\<bar> < 0.5 * real_of_int (F ! j))"
      using assms unfolding list_ex_iff by blast
    then show "circ_loop1 F P [0, 0, 0, 0, 0, 0, 0] ! j = [0, 0, 0, 0, 0, 0, 0] ! j"
      unfolding circ_loop1_nth [OF j] by (simp only: if_False)
  qed
  then show ?thesis by (simp only: circ_loop2_zero)
qed

lemma settled_tick:
  assumes w: "proximity_ir w = (\<lambda>n. raw)" and s: "settled (stored_frame raw) s"
  shows "settled (stored_frame raw) (model_tick w s)"
    and "var_integrity (model_tick w s) \<le> var_integrity s"
    and "adjacent_close (stored_frame raw) \<Longrightarrow>
           var_integrity (model_tick w s) \<le> var_integrity s - (M_PI * 6 / real_of_int TIME) * 0.01"
    and "\<not> adjacent_close (stored_frame raw) \<Longrightarrow> circ_speed s = [0, 0, 0, 0, 0, 0, 0] \<Longrightarrow>
           circ_speed (model_tick w s) = [0, 0, 0, 0, 0, 0, 0] \<and>
           var_integrity (model_tick w s) = var_integrity s"
proof -
  let ?F = "stored_frame raw"
  let ?c2 = "circ_loop2 (circ_loop1 ?F ?F (circ_speed s))"
  from s have f: "sensors s = ?F" "prev_sensors s = ?F" "speed s = [0, 0, 0, 0, 0, 0, 0, 0]"
    and len: "length (circ_speed s) = 7" and nn: "\<forall>j<7. 0 \<le> circ_speed s ! j"
    unfolding settled_def by (simp_all add: list_all_length)
  have g: "sensors (get_sensors w s) = ?F"
    by (rule sensors_get_sensors_frame [OF w]) (simp add: f stored_frame_nth)
  have sp0: "speed_loop ?F ?F [0, 0, 0, 0, 0, 0, 0, 0] = [0, 0, 0, 0, 0, 0, 0, 0]"
    by (rule speed_loop_zero) (simp add: TIME_def)
  have sp: "speed_loop (sensors (get_sensors w s)) (prev_sensors s) (speed s) = [0, 0, 0, 0, 0, 0, 0, 0]"
    by (simp add: g f sp0)
  note c = circ_loops_settled [OF len nn, where F = ?F and P = ?F]
  have hist: "fold (\<lambda>i ps. ps[i := ?F ! i]) [0..<8] ?F = ?F"
    by (rule history_copy) (simp_all add: stored_frame_nth)
  have vi: "var_integrity (model_tick w s) = var_integrity s - (\<Sum>i\<leftarrow>[0..<7]. ?c2 ! i) * 0.01"
    by (simp add: var_integrity_model_tick_quiet [OF sp] g f)
  show "settled ?F (model_tick w s)"
    unfolding settled_def using c(1) c(2)
    by (simp add: model_tick_fields g f sp0 hist list_all_length)
  show "var_integrity (model_tick w s) \<le> var_integrity s"
    using sum_7_bounds(1) [OF c(2)] by (simp add: vi)
  show "var_integrity (model_tick w s) \<le> var_integrity s - (M_PI * 6 / real_of_int TIME) * 0.01"
    if "adjacent_close ?F"
  proof -
    from that obtain j where j: "j \<in> set [1..<7]"
      "real_of_int \<bar>?F ! j - ?F ! (j - 1)\<bar> < 0.5 * real_of_int (?F ! j)"
      unfolding adjacent_close_def list_ex_iff by blast
    then have "j < 7" by simp
    from c(3) [OF j] sum_7_bounds(2) [OF c(2) \<open>j < 7\<close>]
    have ks: "M_PI * 6 / real_of_int TIME \<le> (\<Sum>i\<leftarrow>[0..<7]. ?c2 ! i)" by linarith
    define K where "K = M_PI * 6 / real_of_int TIME"
    define S where "S = (\<Sum>i\<leftarrow>[0..<7]. ?c2 ! i)"
    have "K \<le> S" unfolding K_def S_def by (rule ks)
    moreover have "var_integrity (model_tick w s) = var_integrity s - S * 0.01"
      unfolding S_def by (rule vi)
    ultimately have "var_integrity (model_tick w s) \<le> var_integrity s - K * 0.01" by simp
    then show ?thesis unfolding K_def .
  qed
  show "circ_speed (model_tick w s) = [0, 0, 0, 0, 0, 0, 0] \<and>
        var_integrity (model_tick w s) = var_integrity s"
    if q: "\<not> adjacent_close ?F" and z: "circ_speed s = [0, 0, 0, 0, 0, 0, 0]"
  proof -
    have "?c2 = [0, 0, 0, 0, 0, 0, 0]"
      unfolding z using q unfolding adjacent_close_def by (rule circ_loops_quiet)
    then show ?thesis by (simp add: vi model_tick_fields g f upt_0_7)
  qed
qed

lemma first_tick_settled:
  assumes w: "proximity_ir w = (\<lambda>n. raw)"
  shows "settled (stored_frame raw) (model_tick w (get_sensors w init_state))"
    and "circ_speed (model_tick w (get_sensors w init_state)) = [0, 0, 0, 0, 0, 0, 0]"
    and "var_integrity (model_tick w (get_sensors w init_state)) = 1"
proof -
  let ?F = "stored_frame raw"
  let ?s = "get_sensors w init_state"
  have f: "sensors ?s = ?F"
    by (rule sensors_get_sensors_frame [OF w]) (simp add: init_state_fields)
  have g: "sensors (get_sensors w ?s) = ?F"
    by (rule sensors_get_sensors_frame [OF w]) (simp add: f stored_frame_nth)
  have r: "0 \<le> ?F ! i" "?F ! i \<le> 500" if "i < 8" for i
    using that by (simp_all add: stored_frame_nth limit_sensval_range)
  have sp0: "speed_loop ?F [0, 0, 0, 0, 0, 0, 0, 0] [0, 0, 0, 0, 0, 0, 0, 0] = [0, 0, 0, 0, 0, 0, 0, 0]"
  proof (rule speed_loop_zero, intro allI impI)
    fix i :: nat assume i: "i < 8"
    have "[0, 0, 0, 0, 0, 0, 0, 0] ! i = (0::int)"
      unfolding zeros_8 using i by simp
    then show "\<bar>?F ! i - [0, 0, 0, 0, 0, 0, 0, 0] ! i\<bar> < TIME"
      using r [OF i] by (simp add: TIME_def)
  qed
  have q: "\<not> list_ex (\<lambda>i. real_of_int \<bar>?F ! i - [0, 0, 0, 0, 0, 0, 0, 0] ! (i - 1)\<bar>
                      < 0.5 * real_of_int (?F ! i)) [1..<7]"
  proof -
    have "\<not> real_of_int \<bar>?F ! i - [0, 0, 0, 0, 0, 0, 0, 0] ! (i - 1)\<bar> < 0.5 * real_of_int (?F ! i)"
      if "i \<in> set [1..<7]" for i
    proof -
      from that have i: "i < 8" "i - 1 < 8" by auto
      have "[0, 0, 0, 0, 0, 0, 0, 0] ! (i - 1) = (0::int)"
        unfolding zeros_8 using i(2) by simp
      then show ?thesis using r(1) [OF i(1)] by simp
    qed
    then show ?thesis unfolding list_ex_iff by blast
  qed
  have cs: "circ_loop2 (circ_loop1 ?F [0, 0, 0, 0, 0, 0, 0, 0] [0, 0, 0, 0, 0, 0, 0]) = [0, 0, 0, 0, 0, 0, 0]"
    using q by (rule circ_loops_quiet)
  have sp: "speed_loop (sensors (get_sensors w ?s)) (prev_sensors ?s) (speed ?s) = [0, 0, 0, 0, 0, 0, 0, 0]"
    by (simp add: g init_state_fields sp0)
  have hist: "fold (\<lambda>i ps. ps[i := ?F ! i]) [0..<8] [0, 0, 0, 0, 0, 0, 0, 0] = ?F"
    by (rule history_copy) (simp_all add: stored_frame_nth)
  show "settled ?F (model_tick w ?s)"
    unfolding settled_def by (simp add: model_tick_fields g init_state_fields sp0 cs hist)
  show "circ_speed (model_tick w ?s) = [0, 0, 0, 0, 0, 0, 0]"
    by (simp add: model_tick_fields g init_state_fields cs)
  show "var_integrity (model_tick w ?s) = 1"
    by (simp add: var_integrity_model_tick_quiet [OF sp] g init_state_fields cs upt_0_7)
qed

lemma settled_ticks:
  assumes w: "proximity_ir w = (\<lambda>n. raw)" and s: "settled (stored_frame raw) s"
  shows "settled (stored_frame raw) ((model_tick w ^^ n) s)"
    and "adjacent_close (stored_frame raw) \<Longrightarrow>
           var_integrity ((model_tick w ^^ n) s) \<le>
             var_integrity s - real n * ((M_PI * 6 / real_of_int TIME) * 0.01)"
    and "\<not> adjacent_close (stored_frame raw) \<Longrightarrow> circ_speed s = [0, 0, 0, 0, 0, 0, 0] \<Longrightarrow>
           circ_speed ((model_tick w ^^ n) s) = [0, 0, 0, 0, 0, 0, 0] \<and>
           var_integrity ((model_tick w ^^ n) s) = var_integrity s"
proof -
  show st: "settled (stored_frame raw) ((model_tick w ^^ n) s)" for n
    by (induction n) (simp_all add: s settled_tick(1) [OF w])
  show "var_integrity ((model_tick w ^^ n) s) \<le>
             var_integrity s - real n * ((M_PI * 6 / real_of_int TIME) * 0.01)"
    if a: "adjacent_close (stored_frame raw)"
  proof (induction n)
    case 0
    show ?case by simp
  next
    case (Suc n)
    define D where "D = (M_PI * 6 / real_of_int TIME) * 0.01"
    have "var_integrity ((model_tick w ^^ Suc n) s) \<le> var_integrity ((model_tick w ^^ n) s) - D"
      unfolding D_def using settled_tick(3) [OF w st [of n] a] by simp
    moreover have "var_integrity ((model_tick w ^^ n) s) \<le> var_integrity s - real n * D"
      unfolding D_def by (rule Suc.IH)
    ultimately have "var_integrity ((model_tick w ^^ Suc n) s) \<le> var_integrity s - real (Suc n) * D"
      by (simp add: algebra_simps)
    then show ?case unfolding D_def .
  qed
  show "circ_speed ((model_tick w ^^ n) s) = [0, 0, 0, 0, 0, 0, 0] \<and>
           var_integrity ((model_tick w ^^ n) s) = var_integrity s"
    if q: "\<not> adjacent_close (stored_frame raw)" and z: "circ_speed s = [0, 0, 0, 0, 0, 0, 0]"
  proof (induction n)
    case 0
    show ?case by (simp add: z)
  next
    case (Suc n)
    then have z': "circ_speed ((model_tick w ^^ n) s) = [0, 0, 0, 0, 0, 0, 0]" by blast
    from settled_tick(4) [OF w st [of n] q z'] Suc show ?case by simp
  qed
qed

lemma scenario_frame:
  assumes w: "proximity_ir w = (\<lambda>n. raw)"
  shows "adjacent_close (stored_frame raw) \<Longrightarrow>
           var_integrity ((model_tick w ^^ 10) (get_sensors w init_state)) < 1"
    and "\<not> adjacent_close (stored_frame raw) \<Longrightarrow>
           var_integrity ((model_tick w ^^ 10) (get_sensors w init_state)) = 1"
proof -
  note ft = first_tick_settled [OF w]
  show "var_integrity ((model_tick w ^^ 10) (get_sensors w init_state)) < 1"
    if "adjacent_close (stored_frame raw)"
    using settled_ticks(2) [OF w ft(1) that, of 9] ft(3) circ_k(1)
    by (simp add: ten_ticks)
  show "var_integrity ((model_tick w ^^ 10) (get_sensors w init_state)) = 1"
    if "\<not> adjacent_close (stored_frame raw)"
    using settled_ticks(3) [OF w ft(1) that ft(2), of 9] ft(3)
    by (simp add: ten_ticks)
qed

subsection \<open>The loop of the model\<close>

lemma model_loop_unroll:
  "\<forall>k<n. model_cond ((model_tick w ^^ k) s) \<Longrightarrow> \<not> model_cond ((model_tick w ^^ n) s)
   \<Longrightarrow> model_loop w s = Some ((model_tick w ^^ n) s)"
proof (induction n arbitrary: s)
  case 0
  then show ?case by (simp add: model_loop.simps)
next
  case (Suc n)
  from Suc.prems(1) have c0: "model_cond s" by force
  have "\<forall>k<n. model_cond ((model_tick w ^^ k) (model_tick w s))"
  proof (intro allI impI)
    fix k assume "k < n"
    then have "model_cond ((model_tick w ^^ Suc k) s)" using Suc.prems(1) by blast
    then show "model_cond ((model_tick w ^^ k) (model_tick w s))" by (simp add: funpow_swap1)
  qed
  moreover have "\<not> model_cond ((model_tick w ^^ n) (model_tick w s))"
    using Suc.prems(2) by (simp add: funpow_swap1)
  ultimately have "model_loop w (model_tick w s) = Some ((model_tick w ^^ n) (model_tick w s))"
    by (rule Suc.IH)
  then show ?case using c0 by (subst model_loop.simps) (simp add: funpow_swap1)
qed

lemma model_cond_fails: "\<exists>n. \<not> model_cond ((model_tick w ^^ n) s)"
proof -
  obtain n :: nat where n: "var_energy s / 0.004 \<le> real n"
    using real_arch_simple by blast
  then have "var_energy s - 0.004 * real n \<le> 0" by (simp add: field_simps)
  then have "\<not> model_cond ((model_tick w ^^ n) s)"
    by (simp add: model_cond_def ticks_energy)
  then show ?thesis ..
qed

section \<open>The claims\<close>

subsection \<open>Arbitration\<close>

text \<open>
  C1. For every triple of motivations the arbitrator answers 1 (Energy), 2 (Tegument) or
  3 (Integrity) exactly when that motivation is strictly greater than both others, and
  -1 (None) exactly when no motivation is a strict winner, which is the case exactly when
  the maximum is reached by two of them. (1,1,1) gives None and (2,1,1) gives Energy.
\<close>

theorem winner_takes_all_strict_winner:
  "(winner_takes_all m1 m2 m3 = 1 \<longleftrightarrow> m2 < m1 \<and> m3 < m1) \<and>
   (winner_takes_all m1 m2 m3 = 2 \<longleftrightarrow> m1 < m2 \<and> m3 < m2) \<and>
   (winner_takes_all m1 m2 m3 = 3 \<longleftrightarrow> m1 < m3 \<and> m2 < m3) \<and>
   (winner_takes_all m1 m2 m3 = - 1 \<longleftrightarrow>
      \<not> (m2 < m1 \<and> m3 < m1) \<and> \<not> (m1 < m2 \<and> m3 < m2) \<and> \<not> (m1 < m3 \<and> m2 < m3)) \<and>
   (winner_takes_all m1 m2 m3 = - 1 \<longleftrightarrow>
      (m1 = m2 \<and> m3 \<le> m1) \<or> (m1 = m3 \<and> m2 \<le> m1) \<or> (m2 = m3 \<and> m1 \<le> m2)) \<and>
   winner_takes_all m1 m2 m3 \<in> {1, 2, 3, - 1} \<and>
   winner_takes_all 1 1 1 = - 1 \<and>
   winner_takes_all 2 1 1 = 1"
  unfolding winner_takes_all_def by auto

theorem winner_takes_all_strict_winner_witness:
  "winner_takes_all 3 7 5 = 2 \<and> winner_takes_all 4 4 1 = - 1 \<and> winner_takes_all 0 1 2 = 3"
  using winner_takes_all_strict_winner [of 3 7 5]
        winner_takes_all_strict_winner [of 4 4 1]
        winner_takes_all_strict_winner [of 0 1 2]
  by simp

subsection \<open>Control loop\<close>

text \<open>
  C2. The loop of \<^verbatim>\<open>model\<close> runs a tick exactly as long as the three variables are all
  strictly positive: for every surrounding and every starting state there is a number
  \<open>n\<close> of ticks such that the condition holds before each of the first \<open>n\<close> ticks and
  fails after the \<open>n\<close>-th, the loop returns the state reached then, and \<^verbatim>\<open>model\<close> returns
  it after appending the stop command and then the death animation to what was sent.
  The loop always ends, because every tick takes 0.004 from the energy variable.
\<close>

theorem model_runs_until_need_exhausted:
  "\<exists>n. (\<forall>k<n. var_energy ((model_tick w ^^ k) (get_sensors w s)) > 0 \<and>
                var_tegument ((model_tick w ^^ k) (get_sensors w s)) > 0 \<and>
                var_integrity ((model_tick w ^^ k) (get_sensors w s)) > 0) \<and>
       \<not> (var_energy ((model_tick w ^^ n) (get_sensors w s)) > 0 \<and>
          var_tegument ((model_tick w ^^ n) (get_sensors w s)) > 0 \<and>
          var_integrity ((model_tick w ^^ n) (get_sensors w s)) > 0) \<and>
       model_loop w (get_sensors w s) = Some ((model_tick w ^^ n) (get_sensors w s)) \<and>
       model w s = Some (death_animation (stop_moving ((model_tick w ^^ n) (get_sensors w s)))) \<and>
       events (the (model w s)) =
         events ((model_tick w ^^ n) (get_sensors w s)) @
           [SetMode_RegSpeed, SetSpeed 0 0, LedsOff, SetMode_RegIdle, DeathAnimation]"
proof -
  define s0 where "s0 = get_sensors w s"
  define n where "n = (LEAST n. \<not> model_cond ((model_tick w ^^ n) s0))"
  have dead: "\<not> model_cond ((model_tick w ^^ n) s0)"
    unfolding n_def using model_cond_fails [of w s0] by (rule LeastI_ex)
  have alive: "\<forall>k<n. model_cond ((model_tick w ^^ k) s0)"
    unfolding n_def using not_less_Least by blast
  have loop: "model_loop w s0 = Some ((model_tick w ^^ n) s0)"
    using alive dead by (rule model_loop_unroll)
  have m: "model w s = Some (death_animation (stop_moving ((model_tick w ^^ n) s0)))"
    by (simp add: model_def loop s0_def [symmetric])
  have ev: "events (the (model w s)) = events ((model_tick w ^^ n) s0) @
           [SetMode_RegSpeed, SetSpeed 0 0, LedsOff, SetMode_RegIdle, DeathAnimation]"
    by (simp add: m death_animation_def stop_moving_def)
  show ?thesis
    using alive dead loop m ev unfolding s0_def model_cond_def by blast
qed

text \<open>
  With 0.004 of energy left the loop runs one tick: the condition holds at the start,
  fails after the first tick, and the model stops there.
\<close>

theorem model_runs_until_need_exhausted_witness:
  "model (const_world 290 0) (init_state\<lparr>var_energy := 0.004\<rparr>) =
     Some (death_animation (stop_moving
       (model_tick (const_world 290 0) (get_sensors (const_world 290 0) (init_state\<lparr>var_energy := 0.004\<rparr>))))) \<and>
   var_energy (get_sensors (const_world 290 0) (init_state\<lparr>var_energy := 0.004\<rparr>)) > 0 \<and>
   var_tegument (get_sensors (const_world 290 0) (init_state\<lparr>var_energy := 0.004\<rparr>)) > 0 \<and>
   var_integrity (get_sensors (const_world 290 0) (init_state\<lparr>var_energy := 0.004\<rparr>)) > 0 \<and>
   \<not> var_energy (model_tick (const_world 290 0)
         (get_sensors (const_world 290 0) (init_state\<lparr>var_energy := 0.004\<rparr>))) > 0"
proof -
  let ?w = "const_world 290 0"
  let ?s = "init_state\<lparr>var_energy := 0.004\<rparr>"
  let ?P = "\<lambda>k. var_energy ((model_tick ?w ^^ k) (get_sensors ?w ?s)) > 0 \<and>
                var_tegument ((model_tick ?w ^^ k) (get_sensors ?w ?s)) > 0 \<and>
                var_integrity ((model_tick ?w ^^ k) (get_sensors ?w ?s)) > 0"
  from model_runs_until_need_exhausted [of ?w ?s] obtain n where
    a: "\<forall>k<n. ?P k" and d: "\<not> ?P n" and
    m: "model ?w ?s = Some (death_animation (stop_moving ((model_tick ?w ^^ n) (get_sensors ?w ?s))))"
    by blast
  have p0: "?P 0" by (simp add: init_state_fields)
  have e1: "\<not> var_energy (model_tick ?w (get_sensors ?w ?s)) > 0"
    by (simp add: model_tick_fields)
  then have np1: "\<not> ?P 1" by simp
  have "n \<noteq> 0" using d p0 by (cases "n = 0") simp_all
  moreover have "\<not> 1 < n" using a np1 by blast
  ultimately have "n = 1" by linarith
  with m p0 e1 show ?thesis by simp
qed

subsection \<open>Speed-based damage\<close>

text \<open>
  C3. The claim asks that a spike on channel 3 above the 5% threshold sets
  \<^verbatim>\<open>speed[3]\<close> to \<open>(speed[3] + diff/PERIOD)/2\<close>, makes the speed heuristic fire and takes
  \<open>speed[3]\<cdot>0.01\<close> from the integrity variable with one damage animation. In the code
  \<^verbatim>\<open>diff[i]/TIME\<close> divides two ints and \<^verbatim>\<open>MAX_DIST/TIME\<close> is 0: after a first frame with
  200 on channel 3 and 0 elsewhere (difference 200, threshold 21) the stored speed is 0
  and not 0.001, the mean is a quotient by zero, the function answers 0 when the
  uninitialised \<^verbatim>\<open>mean\<close> starts at 0 and 1 when it starts at 1, and in both cases
  neither the integrity variable nor the list of animations changes.
\<close>

theorem speed_damage_spike_induces_nothing:
  "sensors (get_sensors (spike_world 0) init_state) = [0, 0, 0, 200, 0, 0, 0, 0] \<and>
   prev_sensors (get_sensors (spike_world 0) init_state) = [0, 0, 0, 0, 0, 0, 0, 0] \<and>
   0.05 * real_of_int (MAX_DIST - MIN_DIST) < real_of_int \<bar>200 - 0\<bar> \<and>
   speed (snd (speed_damage (spike_world 0) (get_sensors (spike_world 0) init_state))) ! 3 = 0 \<and>
   (0 + 200 / real_of_int TIME) / 2 = (1 / 1000 :: real) \<and>
   fst (speed_damage (spike_world 0) (get_sensors (spike_world 0) init_state)) = 0 \<and>
   var_integrity (snd (speed_damage (spike_world 0) (get_sensors (spike_world 0) init_state))) =
     var_integrity (get_sensors (spike_world 0) init_state) \<and>
   events (snd (speed_damage (spike_world 0) (get_sensors (spike_world 0) init_state))) =
     events (get_sensors (spike_world 0) init_state) \<and>
   fst (speed_damage (spike_world 1) (get_sensors (spike_world 1) init_state)) = 1 \<and>
   var_integrity (snd (speed_damage (spike_world 1) (get_sensors (spike_world 1) init_state))) =
     var_integrity (get_sensors (spike_world 1) init_state) \<and>
   events (snd (speed_damage (spike_world 1) (get_sensors (spike_world 1) init_state))) =
     events (get_sensors (spike_world 1) init_state)"
proof -
  have q: "speed_loop (sensors (get_sensors (spike_world j) init_state))
        (prev_sensors (get_sensors (spike_world j) init_state))
        (speed (get_sensors (spike_world j) init_state)) = [0, 0, 0, 0, 0, 0, 0, 0]" for j
    by (simp add: get_sensors_init_spike init_state_fields speed_loop_spike)
  show ?thesis
    by (simp add: speed_damage_quiet_full [OF q] get_sensors_init_spike init_state_fields
        MAX_DIST_def MIN_DIST_def TIME_def)
qed

subsection \<open>Sensor refresh\<close>

text \<open>
  C4, as amended. For every raw value the sensor refresh stores \<open>(raw - MIN_DIST)/2\<close>,
  which is the clamped value minus \<open>MIN_DIST\<close>, halved, when \<open>MIN_DIST \<le> raw \<le> MAX_DIST\<close>,
  0 when \<open>raw < MIN_DIST\<close>, and \<open>MAX_DIST\<close> itself, unscaled, when \<open>raw > MAX_DIST\<close>. So raw
  values 0 and \<open>MIN_DIST\<close> are stored as 0 and \<open>MAX_DIST\<close> as
  \<open>(MAX_DIST - MIN_DIST)/2 = 210\<close>, but a raw value above \<open>MAX_DIST\<close> is stored as 500 and
  not as the value stored for \<open>MAX_DIST\<close>.
\<close>

theorem get_sensors_stores_limited_value:
  assumes "length (sensors s) = 8" "i < 8"
  shows "sensors (get_sensors w s) ! i =
     (let raw = proximity_ir w (ir_calls s) i
      in if raw > MAX_DIST then MAX_DIST
         else if raw \<ge> MIN_DIST then (max MIN_DIST (min MAX_DIST raw) - MIN_DIST) div 2
         else 0)"
proof -
  have "sensors (get_sensors w s) ! i = limit_sensval (proximity_ir w (ir_calls s) i)"
    using assms(2) by (simp add: sensors_get_sensors [OF assms(1)] del: upt_Suc)
  then show ?thesis
    by (simp add: limit_sensval_def Let_def drop_bit_eq_div MAX_DIST_def MIN_DIST_def)
qed

theorem get_sensors_stores_limited_value_witness:
  "sensors (get_sensors (const_world 0 0) init_state) ! 3 = 0 \<and>
   sensors (get_sensors (const_world MIN_DIST 0) init_state) ! 3 = 0 \<and>
   sensors (get_sensors (const_world 290 0) init_state) ! 3 = 105 \<and>
   sensors (get_sensors (const_world MAX_DIST 0) init_state) ! 3 = 210 \<and>
   (MAX_DIST - MIN_DIST) div 2 = 210 \<and>
   sensors (get_sensors (const_world (MAX_DIST + 1) 0) init_state) ! 3 = 500 \<and>
   sensors (get_sensors (const_world 1023 0) init_state) ! 3 = 500"
proof -
  have l: "length (sensors init_state) = 8" by (simp add: init_state_fields)
  have i: "(3::nat) < 8" by simp
  show ?thesis
    using get_sensors_stores_limited_value [OF l i, of "const_world 0 0"]
      get_sensors_stores_limited_value [OF l i, of "const_world MIN_DIST 0"]
      get_sensors_stores_limited_value [OF l i, of "const_world 290 0"]
      get_sensors_stores_limited_value [OF l i, of "const_world MAX_DIST 0"]
      get_sensors_stores_limited_value [OF l i, of "const_world (MAX_DIST + 1) 0"]
      get_sensors_stores_limited_value [OF l i, of "const_world 1023 0"]
    by (simp add: Let_def MAX_DIST_def MIN_DIST_def)
qed

text \<open>
  The claim as it was stated fails for the raw value \<open>MAX_DIST + 1\<close>: the frame stored
  for it is not the frame stored for \<open>MAX_DIST\<close>.
\<close>

theorem get_sensors_above_max_dist_counterexample:
  "sensors (get_sensors (const_world (MAX_DIST + 1) 0) init_state) \<noteq>
   sensors (get_sensors (const_world MAX_DIST 0) init_state)"
  by (simp add: get_sensors_init_const limit_sensval_def MAX_DIST_def MIN_DIST_def drop_bit_eq_div)

subsection \<open>Ten cycles on constant readings\<close>

text \<open>
  C5, as amended. From the initial state, with raw readings that do not change in time,
  ten ticks of the loop leave the energy variable at 0.96 and the tegument variable at
  0.985 (in exact arithmetic). The integrity variable stays at 1.0 only if the adjacency
  test fires for no channel of the stored frame, that is if no channel \<open>i\<close> of 1..6
  differs from channel \<open>i - 1\<close> by less than half its own value; if it fires for some
  channel, as it does whenever all channels show the same mid-range reading, the
  adjacency heuristic induces damage in the cycles after the first and the integrity
  variable ends below 1.0. How much below is not part of the claim.
\<close>

theorem scenario_constant_readings:
  assumes "proximity_ir w = (\<lambda>n. raw)"
  shows "var_energy ((model_tick w ^^ 10) (get_sensors w init_state)) = 0.96 \<and>
         var_tegument ((model_tick w ^^ 10) (get_sensors w init_state)) = 0.985 \<and>
         (if adjacent_close (stored_frame raw)
          then var_integrity ((model_tick w ^^ 10) (get_sensors w init_state)) < 1
          else var_integrity ((model_tick w ^^ 10) (get_sensors w init_state)) = 1)"
  using scenario_frame [OF assms]
  by (simp add: ticks_energy ticks_tegument init_state_fields)

text \<open>
  Two frames: 290 on every channel (stored as 105 everywhere, the test fires) and 100 and
  480 in alternation (stored as 10 and 200, the test fires nowhere).
\<close>

theorem scenario_constant_readings_witness:
  "var_energy ((model_tick (const_world 290 0) ^^ 10) (get_sensors (const_world 290 0) init_state)) = 0.96 \<and>
   var_tegument ((model_tick (const_world 290 0) ^^ 10) (get_sensors (const_world 290 0) init_state)) = 0.985 \<and>
   var_integrity ((model_tick (const_world 290 0) ^^ 10) (get_sensors (const_world 290 0) init_state)) < 1 \<and>
   var_energy ((model_tick (alternating_world 0) ^^ 10) (get_sensors (alternating_world 0) init_state)) = 0.96 \<and>
   var_tegument ((model_tick (alternating_world 0) ^^ 10) (get_sensors (alternating_world 0) init_state)) = 0.985 \<and>
   var_integrity ((model_tick (alternating_world 0) ^^ 10) (get_sensors (alternating_world 0) init_state)) = 1"
proof -
  have u: "adjacent_close (stored_frame (\<lambda>i. 290))"
    by (simp add: adjacent_close_def stored_frame_def upt_0_8 upt_1_7 limit_sensval_def
        MAX_DIST_def MIN_DIST_def drop_bit_eq_div)
  have a: "\<not> adjacent_close (stored_frame (\<lambda>i. if even i then 100 else 480))"
    by (simp add: adjacent_close_def stored_frame_def upt_0_8 upt_1_7 limit_sensval_def
        MAX_DIST_def MIN_DIST_def drop_bit_eq_div)
  have wu: "proximity_ir (const_world 290 0) = (\<lambda>n. (\<lambda>i. 290))" by simp
  have wa: "proximity_ir (alternating_world 0) = (\<lambda>n. (\<lambda>i. if even i then 100 else 480))" by simp
  show ?thesis
    using scenario_constant_readings [OF wu] scenario_constant_readings [OF wa] u a
    by simp
qed

text \<open>
  The claim as it was stated fails when every channel reads 290: after ten ticks the
  three variables are not 0.96, 0.985 and 1.0.
\<close>

theorem scenario_constant_readings_counterexample:
  "\<not> (var_energy ((model_tick (const_world 290 0) ^^ 10) (get_sensors (const_world 290 0) init_state)) = 0.96 \<and>
      var_tegument ((model_tick (const_world 290 0) ^^ 10) (get_sensors (const_world 290 0) init_state)) = 0.985 \<and>
      var_integrity ((model_tick (const_world 290 0) ^^ 10) (get_sensors (const_world 290 0) init_state)) = 1.0)"
proof -
  have u: "adjacent_close (stored_frame (\<lambda>i. 290))"
    by (simp add: adjacent_close_def stored_frame_def upt_0_8 upt_1_7 limit_sensval_def
        MAX_DIST_def MIN_DIST_def drop_bit_eq_div)
  have wu: "proximity_ir (const_world 290 0) = (\<lambda>n. (\<lambda>i. 290))" by simp
  from scenario_frame(1) [OF wu u] show ?thesis by simp
qed

subsection \<open>The integrity cue\<close>

text \<open>
  C6. The claim asks that the integrity cue is the mean of the frame normalised into
  [0,1], as the comment of \<^verbatim>\<open>get_mean_normalized\<close> promises. The frame that the sensor
  refresh stores for raw values of 0 is all zero, and its cue, normalised against
  \<open>MIN_DIST\<close> and \<open>MAX_DIST\<close>, is \<open>-4/21\<close>, below 0, even when the uninitialised \<^verbatim>\<open>mean\<close>
  starts at 0.
\<close>

theorem compute_cues_integrity_below_zero:
  "sensors (get_sensors (const_world 0 0) init_state) = [0, 0, 0, 0, 0, 0, 0, 0] \<and>
   cue_integrity (compute_cues (const_world 0 0) (get_sensors (const_world 0 0) init_state)) = - 4 / 21 \<and>
   cue_integrity (compute_cues (const_world 0 0) (get_sensors (const_world 0 0) init_state)) < 0 \<and>
   cue_integrity (recompute_vars (const_world 0 0) (get_sensors (const_world 0 0) init_state)) < 0"
proof -
  let ?w = "const_world 0 0"
  have s: "sensors (get_sensors ?w init_state) = [0, 0, 0, 0, 0, 0, 0, 0]"
    by (simp add: get_sensors_init_const limit_sensval_0)
  have c: "cue_integrity (compute_cues ?w (get_sensors ?w init_state)) = - 4 / 21"
    by (simp add: cue_integrity_compute_cues s get_mean_normalized_8)
  have r: "cue_integrity (recompute_vars ?w (get_sensors ?w init_state)) =
           cue_integrity (compute_cues ?w (get_sensors ?w init_state))"
    by (simp add: recompute_vars_def compute_motivations_def compute_deficit_def compute_cues_def)
  show ?thesis using s c r by simp
qed

subsection \<open>Inducing damage\<close>

text \<open>
  C7, as amended. For every magnitude \<open>m\<close>, \<^verbatim>\<open>induce_damage(m)\<close> takes \<open>m \<cdot> 0.01\<close> from the
  integrity variable, leaves the energy and tegument variables as they are, and then
  recomputes deficit, cue and motivation of all three needs from the variables: each
  deficit becomes 1 minus the variable, the cues become 0.06, 0.055 and the normalised
  mean of the frame, and each motivation becomes deficit + deficit \<cdot> cue. The fields of
  Energy and Tegument are therefore overwritten too.
\<close>

theorem induce_damage_recomputes_all_needs:
  "var_integrity (induce_damage w m s) = var_integrity s - m * 0.01 \<and>
   var_energy (induce_damage w m s) = var_energy s \<and>
   var_tegument (induce_damage w m s) = var_tegument s \<and>
   def_integrity (induce_damage w m s) = 1 - (var_integrity s - m * 0.01) \<and>
   cue_integrity (induce_damage w m s) =
     get_mean_normalized (indeterminate w (mean_calls s)) (sensors s) 8 MIN_DIST MAX_DIST \<and>
   mot_integrity (induce_damage w m s) =
     def_integrity (induce_damage w m s) +
     def_integrity (induce_damage w m s) * cue_integrity (induce_damage w m s) \<and>
   def_energy (induce_damage w m s) = 1 - var_energy s \<and>
   cue_energy (induce_damage w m s) = 0.06 \<and>
   mot_energy (induce_damage w m s) = (1 - var_energy s) + (1 - var_energy s) * 0.06 \<and>
   def_tegument (induce_damage w m s) = 1 - var_tegument s \<and>
   cue_tegument (induce_damage w m s) = 0.055 \<and>
   mot_tegument (induce_damage w m s) = (1 - var_tegument s) + (1 - var_tegument s) * 0.055"
  by (simp add: induce_damage_recompute recompute_vars_all)

theorem induce_damage_recomputes_all_needs_witness:
  "var_integrity (induce_damage (const_world 290 0) 2 init_state) = 0.98 \<and>
   def_integrity (induce_damage (const_world 290 0) 2 init_state) = 0.02 \<and>
   def_energy (induce_damage (const_world 290 0) 2 init_state) = 0 \<and>
   cue_energy (induce_damage (const_world 290 0) 2 init_state) = 0.06 \<and>
   cue_tegument (induce_damage (const_world 290 0) 2 init_state) = 0.055"
  using induce_damage_recomputes_all_needs [of "const_world 290 0" 2 init_state]
  by (simp add: init_state_fields)

text \<open>
  The claim as it was stated fails at the first call of the first tick: the state is the
  initial one after the decay and the sensor refresh, its energy deficit is still the
  initialiser 1.0, and the call with magnitude 0 changes it (to 0.004).
\<close>

theorem induce_damage_frame_counterexample:
  "def_energy (induce_damage (const_world 290 0) 0
       (get_sensors (const_world 290 0)
          (decrease_physoligical_variables (get_sensors (const_world 290 0) init_state))))
   \<noteq> def_energy (get_sensors (const_world 290 0)
          (decrease_physoligical_variables (get_sensors (const_world 290 0) init_state)))"
  by (simp add: induce_damage_recompute recompute_vars_all get_sensors_def
      decrease_physoligical_variables_def init_state_def)

subsection \<open>The combined damage check\<close>

text \<open>
  C8. \<^verbatim>\<open>check_if_damage\<close> answers 1 exactly when one of the two heuristics answers
  non-zero and 0 otherwise, and on every call both heuristics have run: the state it
  leaves is the one \<^verbatim>\<open>speed_damage\<close> leaves when started from the state that
  \<^verbatim>\<open>circ_damage\<close> leaves.
\<close>

theorem check_if_damage_or_of_both:
  "(fst (check_if_damage w s) = 1 \<longleftrightarrow>
      fst (circ_damage w s) \<noteq> 0 \<or> fst (speed_damage w (snd (circ_damage w s))) \<noteq> 0) \<and>
   (fst (check_if_damage w s) = 0 \<longleftrightarrow>
      \<not> (fst (circ_damage w s) \<noteq> 0 \<or> fst (speed_damage w (snd (circ_damage w s))) \<noteq> 0)) \<and>
   snd (check_if_damage w s) = snd (speed_damage w (snd (circ_damage w s)))"
  by (simp add: fst_circ_damage check_if_damage_eq)

theorem check_if_damage_or_of_both_witness:
  "fst (check_if_damage (const_world 290 1) init_state) = 1 \<and>
   fst (circ_damage (const_world 290 1) init_state) = 0 \<and>
   fst (speed_damage (const_world 290 1) (snd (circ_damage (const_world 290 1) init_state))) = 1 \<and>
   fst (check_if_damage (const_world 290 0) init_state) = 0"
proof -
  have q: "speed_loop (sensors (snd (circ_damage w init_state)))
        (prev_sensors (snd (circ_damage w init_state)))
        (speed (snd (circ_damage w init_state))) = [0, 0, 0, 0, 0, 0, 0, 0]" for w
    by (simp add: init_state_fields speed_loop_steady(2) [of 0] TIME_def)
  have "fst (speed_damage (const_world 290 1) (snd (circ_damage (const_world 290 1) init_state))) = 1"
    "fst (speed_damage (const_world 290 0) (snd (circ_damage (const_world 290 0) init_state))) = 0"
    by (simp_all add: speed_damage_quiet_full [OF q])
  then show ?thesis
    using check_if_damage_or_of_both [of "const_world 290 1" init_state]
      check_if_damage_or_of_both [of "const_world 290 0" init_state]
    by (simp add: fst_circ_damage)
qed

subsection \<open>Determinism\<close>

text \<open>
  C9. The claim asks that damage detection and the cue computation give the same result
  whenever sensors, history, speeds and variables are the same. Both mean functions add
  the table onto a local \<^verbatim>\<open>mean\<close> that is never initialised, so the result also depends on
  what that local happens to hold: from one and the same state, with the same sensor
  readings, the integrity cue is 5/84 when it holds 0 and 67/1120 when it holds 1, and the
  speed heuristic and the combined check answer 0 in the first case and 1 in the second.
\<close>

theorem results_depend_on_uninitialised_mean:
  "get_sensors (const_world 290 0) init_state = get_sensors (const_world 290 1) init_state \<and>
   proximity_ir (const_world 290 0) = proximity_ir (const_world 290 1) \<and>
   secure_led_animation (const_world 290 0) = secure_led_animation (const_world 290 1) \<and>
   cue_integrity (compute_cues (const_world 290 0) (get_sensors (const_world 290 0) init_state)) = 5 / 84 \<and>
   cue_integrity (compute_cues (const_world 290 1) (get_sensors (const_world 290 0) init_state)) = 67 / 1120 \<and>
   fst (speed_damage (const_world 290 0) (get_sensors (const_world 290 0) init_state)) = 0 \<and>
   fst (speed_damage (const_world 290 1) (get_sensors (const_world 290 0) init_state)) = 1 \<and>
   fst (check_if_damage (const_world 290 0) (get_sensors (const_world 290 0) init_state)) = 0 \<and>
   fst (check_if_damage (const_world 290 1) (get_sensors (const_world 290 0) init_state)) = 1"
proof -
  have l: "limit_sensval 290 = 105"
    by (simp add: limit_sensval_def MAX_DIST_def MIN_DIST_def drop_bit_eq_div)
  have s: "sensors (get_sensors (const_world 290 j) init_state) =
      [105, 105, 105, 105, 105, 105, 105, 105]" for j
    by (simp add: get_sensors_init_const l)
  have e: "get_sensors (const_world 290 0) init_state = get_sensors (const_world 290 1) init_state"
    by (simp add: get_sensors_def)
  have t: "\<bar>105::int\<bar> < TIME" by (simp add: TIME_def)
  have q: "speed_loop (sensors (get_sensors (const_world 290 j) init_state))
        (prev_sensors (get_sensors (const_world 290 j) init_state))
        (speed (get_sensors (const_world 290 j) init_state)) = [0, 0, 0, 0, 0, 0, 0, 0]" for j
    by (simp add: s init_state_fields speed_loop_steady(2) [OF t])
  have q': "speed_loop (sensors (snd (circ_damage w (get_sensors (const_world 290 j) init_state))))
        (prev_sensors (snd (circ_damage w (get_sensors (const_world 290 j) init_state))))
        (speed (snd (circ_damage w (get_sensors (const_world 290 j) init_state)))) =
      [0, 0, 0, 0, 0, 0, 0, 0]" for j w
    by (simp add: s init_state_fields speed_loop_steady(2) [OF t])
  have c: "cue_integrity (compute_cues (const_world 290 j) (get_sensors (const_world 290 0) init_state)) =
      ((j + 840) / 8 - 80) / 420" for j
    by (simp add: cue_integrity_compute_cues s get_mean_normalized_8)
  show ?thesis
    by (simp add: e [symmetric] c check_if_damage_eq speed_damage_quiet_full [OF q]
          speed_damage_quiet_full [OF q'])
qed

subsection \<open>The adjacency heuristic's answer\<close>

text \<open>
  C10. \<^verbatim>\<open>circ_damage\<close> answers 0 in every state and every surrounding, so
  \<^verbatim>\<open>check_if_damage\<close> gives exactly the answer and the state of \<^verbatim>\<open>speed_damage\<close> run
  after it: the adjacency heuristic acts on the combined check only through the state
  it leaves, never through its flag.
\<close>

theorem circ_damage_returns_zero:
  "fst (circ_damage w s) = 0 \<and>
   check_if_damage w s = speed_damage w (snd (circ_damage w s)) \<and>
   fst (check_if_damage w s) = fst (speed_damage w (snd (circ_damage w s)))"
  by (simp add: fst_circ_damage check_if_damage_eq speed_damage_loops Let_def)

theorem circ_damage_returns_zero_witness:
  "fst (circ_damage (const_world 290 0) (get_sensors (const_world 290 0) init_state)) = 0 \<and>
   fst (check_if_damage (const_world 290 0) (get_sensors (const_world 290 0) init_state)) =
     fst (speed_damage (const_world 290 0)
            (snd (circ_damage (const_world 290 0) (get_sensors (const_world 290 0) init_state))))"
  using circ_damage_returns_zero [of "const_world 290 0" "get_sensors (const_world 290 0) init_state"]
  by simp

end
